theory Spec2Isabelle
  imports Main
begin

section \<open>Type safe string format: the template scanner\<close>

text \<open>
  A shallow embedding of \<^verbatim>\<open>utils/format.cpp\<close> and \<^verbatim>\<open>utils/format.h\<close>.

  A \<^verbatim>\<open>const char*\<close> is a \<^typ>\<open>string\<close> without its terminator: the empty list is
  the position of the terminating NUL. The cursor \<^verbatim>\<open>formatParameter + pos\<close> of the
  source is the pair of the unread characters and \<^verbatim>\<open>pos\<close>; every function that
  takes \<^verbatim>\<open>int& pos\<close> returns the new pair. An \<^verbatim>\<open>std::ostream&\<close> argument is the
  text written so far, returned with the new text appended.

  Exceptions are values of \<open>error\<close>; a function that can throw returns \<open>error + 'a\<close>.
  \<open>IllegalFormatStringException\<close> keeps the error position.
\<close>

datatype error =
    IllegalFormatStringException nat
  | out_of_range int
  | assertion_failure
  | undefined_behaviour

abbreviation (input) NUL :: char where "NUL \<equiv> CHR 0x00"
abbreviation (input) FORMAT_START :: char where "FORMAT_START \<equiv> CHR ''{''"
abbreviation (input) FORMAT_END :: char where "FORMAT_END \<equiv> CHR ''}''"
abbreviation (input) FORMAT_SPECIFIER :: char where "FORMAT_SPECIFIER \<equiv> CHR '':''"
abbreviation (input) FORMAT_ENVIRONMENT :: char where "FORMAT_ENVIRONMENT \<equiv> CHR ''$''"
abbreviation (input) FORMAT_EXPLICIT_TYPE :: char where "FORMAT_EXPLICIT_TYPE \<equiv> CHR ''!''"
abbreviation (input) FORMAT_SELECTOR_OBJ :: char where "FORMAT_SELECTOR_OBJ \<equiv> CHR ''.''"
abbreviation (input) FORMAT_SELECTOR_ARRAY_BEGIN :: char where "FORMAT_SELECTOR_ARRAY_BEGIN \<equiv> CHR ''[''"
abbreviation (input) FORMAT_SELECTOR_ARRAY_END :: char where "FORMAT_SELECTOR_ARRAY_END \<equiv> CHR '']''"
abbreviation (input) FORMAT_ALIGN_LEFT :: char where "FORMAT_ALIGN_LEFT \<equiv> CHR ''<''"
abbreviation (input) FORMAT_ALIGN_RIGHT :: char where "FORMAT_ALIGN_RIGHT \<equiv> CHR ''>''"
abbreviation (input) FORMAT_ALIGN_CENTER :: char where "FORMAT_ALIGN_CENTER \<equiv> CHR ''^''"
abbreviation (input) FORMAT_ALIGN_INTERNAL :: char where "FORMAT_ALIGN_INTERNAL \<equiv> CHR ''=''"
abbreviation (input) FORMAT_ALTERNATE_TOGGLE :: char where "FORMAT_ALTERNATE_TOGGLE \<equiv> CHR ''#''"
abbreviation (input) FORMAT_SIGNAWARE_ZERO_TOGGLE :: char where "FORMAT_SIGNAWARE_ZERO_TOGGLE \<equiv> CHR ''0''"
abbreviation (input) FORMAT_THOUSANDS_TOGGLE :: char where "FORMAT_THOUSANDS_TOGGLE \<equiv> CHR '',''"
abbreviation (input) FORMAT_PRECISION_TOGGLE :: char where "FORMAT_PRECISION_TOGGLE \<equiv> CHR ''.''"
abbreviation (input) FORMAT_PERCENTAGE_MODE :: char where "FORMAT_PERCENTAGE_MODE \<equiv> CHR ''%''"
abbreviation (input) FORMAT_BINARY_TOGGLE :: char where "FORMAT_BINARY_TOGGLE \<equiv> CHR ''b''"
abbreviation (input) FORMAT_OCTAL_TOGGLE :: char where "FORMAT_OCTAL_TOGGLE \<equiv> CHR ''o''"
abbreviation (input) FORMAT_LOWERCASE_HEX_TOGGLE :: char where "FORMAT_LOWERCASE_HEX_TOGGLE \<equiv> CHR ''x''"
abbreviation (input) FORMAT_UPPERCASE_HEX_TOGGLE :: char where "FORMAT_UPPERCASE_HEX_TOGGLE \<equiv> CHR ''X''"
abbreviation (input) FORMAT_SIGN_NEGATIVES_TOGGLE :: char where "FORMAT_SIGN_NEGATIVES_TOGGLE \<equiv> CHR ''-''"
abbreviation (input) FORMAT_SIGN_ALWAYS_TOGGLE :: char where "FORMAT_SIGN_ALWAYS_TOGGLE \<equiv> CHR ''+''"
abbreviation (input) FORMAT_SIGN_POSITIVE_SPACE_TOGGLE :: char where "FORMAT_SIGN_POSITIVE_SPACE_TOGGLE \<equiv> CHR '' ''"
abbreviation (input) FORMAT_LOCALIZED_NUMBER_TOGGLE :: char where "FORMAT_LOCALIZED_NUMBER_TOGGLE \<equiv> CHR ''n''"
abbreviation (input) FORMAT_UNICODE_CHAR_TOGGLE :: char where "FORMAT_UNICODE_CHAR_TOGGLE \<equiv> CHR ''c''"
abbreviation (input) FORMAT_NORMAL_NUMBER_TOGGLE :: char where "FORMAT_NORMAL_NUMBER_TOGGLE \<equiv> CHR ''d''"
abbreviation (input) FORMAT_SCIENTIFIC_TOGGLE :: char where "FORMAT_SCIENTIFIC_TOGGLE \<equiv> CHR ''e''"
abbreviation (input) FORMAT_SCIENTIFIC_UC_TOGGLE :: char where "FORMAT_SCIENTIFIC_UC_TOGGLE \<equiv> CHR ''E''"
abbreviation (input) FORMAT_FIXED_TOGGLE :: char where "FORMAT_FIXED_TOGGLE \<equiv> CHR ''f''"
abbreviation (input) FORMAT_FIXED_UC_TOGGLE :: char where "FORMAT_FIXED_UC_TOGGLE \<equiv> CHR ''F''"
abbreviation (input) FORMAT_GENERAL_DECIM_TOGGLE :: char where "FORMAT_GENERAL_DECIM_TOGGLE \<equiv> CHR ''g''"
abbreviation (input) FORMAT_GENERAL_DECIM_UC_TOGGLE :: char where "FORMAT_GENERAL_DECIM_UC_TOGGLE \<equiv> CHR ''G''"
abbreviation (input) FORMAT_TEXT_INDEX :: int where "FORMAT_TEXT_INDEX \<equiv> - 1"
abbreviation (input) FORMAT_ENVIRONMENT_INDEX :: int where "FORMAT_ENVIRONMENT_INDEX \<equiv> - 2"
abbreviation (input) PRECISION_NOT_SET :: int where "PRECISION_NOT_SET \<equiv> - 1"

text \<open>
  \<^verbatim>\<open>int\<close> arithmetic that can overflow wraps to 32 bits, which is what the source's own
  overflow test \<^verbatim>\<open>parsedInteger < 0\<close> relies on; \<^verbatim>\<open>int64_t\<close> arithmetic wraps to 64 bits.
\<close>

definition int32 :: "int \<Rightarrow> int" where
  "int32 x = (x + 2147483648) mod 4294967296 - 2147483648"

definition int64 :: "int \<Rightarrow> int" where
  "int64 x = (x + 9223372036854775808) mod 18446744073709551616 - 9223372036854775808"

subsection \<open>Literal text\<close>

text \<open>
  \<^verbatim>\<open>GetPlainTextFragment\<close>: the loop over \<^verbatim>\<open>formatParameter[pos]\<close> with its local
  \<^verbatim>\<open>expect\<close>. The result is the text written, the unread characters and \<^verbatim>\<open>pos\<close>.
\<close>

fun GetPlainTextFragment_loop ::
  "char \<Rightarrow> string \<Rightarrow> string \<Rightarrow> nat \<Rightarrow> error + (string \<times> string \<times> nat)" where
  "GetPlainTextFragment_loop expect [] ostr pos = Inr (ostr, [], pos)"
| "GetPlainTextFragment_loop expect (c # cs) ostr pos =
     (if expect \<noteq> NUL \<and> expect \<noteq> c then Inl (IllegalFormatStringException pos)
      else if c = FORMAT_START then
        (case cs of
           [] \<Rightarrow> Inr (ostr, c # cs, pos)
         | d # ds \<Rightarrow>
             if d = FORMAT_START then GetPlainTextFragment_loop expect ds (ostr @ [c]) (pos + 2)
             else Inr (ostr, c # cs, pos))
      else if c = FORMAT_END then
        (if expect = FORMAT_END then GetPlainTextFragment_loop NUL cs (ostr @ [c]) (pos + 1)
         else if expect = NUL then GetPlainTextFragment_loop FORMAT_END cs ostr (pos + 1)
         else GetPlainTextFragment_loop expect cs ostr (pos + 1))
      else GetPlainTextFragment_loop expect cs (ostr @ [c]) (pos + 1))"

definition GetPlainTextFragment ::
  "string \<Rightarrow> string \<Rightarrow> nat \<Rightarrow> error + (string \<times> string \<times> nat)" where
  "GetPlainTextFragment formatParameter ostr pos =
     GetPlainTextFragment_loop NUL formatParameter ostr pos"

subsection \<open>Scanning helpers\<close>

fun SkipWhitespace :: "string \<Rightarrow> nat \<Rightarrow> string \<times> nat" where
  "SkipWhitespace [] pos = ([], pos)"
| "SkipWhitespace (c # cs) pos =
     (if c = CHR '' '' \<or> c = CHR 0x09 \<or> c = CHR 0x0A \<or> c = CHR 0x0D
      then SkipWhitespace cs (pos + 1)
      else (c # cs, pos))"

definition is_digit :: "char \<Rightarrow> bool" where
  "is_digit c = (of_char (CHR ''0'') \<le> (of_char c :: nat) \<and> (of_char c :: nat) \<le> of_char (CHR ''9''))"

definition digit_value :: "char \<Rightarrow> int" where
  "digit_value c = int (of_char c) - int (of_char (CHR ''0''))"

text \<open>
  \<^verbatim>\<open>ParseIntegerNumber\<close>: the loop carries \<^verbatim>\<open>parsedInteger\<close>, \<^verbatim>\<open>sign\<close>,
  \<^verbatim>\<open>firstChar\<close> and \<^verbatim>\<open>foundAny\<close>; the code after the loop follows.
\<close>

fun ParseIntegerNumber_loop ::
  "bool \<Rightarrow> string \<Rightarrow> nat \<Rightarrow> int \<Rightarrow> int \<Rightarrow> bool \<Rightarrow> bool
    \<Rightarrow> error + (int \<times> int \<times> bool \<times> string \<times> nat)" where
  "ParseIntegerNumber_loop allowNegative [] pos parsedInteger sign firstChar foundAny =
     Inr (parsedInteger, sign, foundAny, [], pos)"
| "ParseIntegerNumber_loop allowNegative (c # cs) pos parsedInteger sign firstChar foundAny =
     (if c = CHR ''-'' then
        (if allowNegative \<and> firstChar
         then ParseIntegerNumber_loop allowNegative cs (pos + 1) parsedInteger (- 1) False True
         else Inl (IllegalFormatStringException pos))
      else if is_digit c then
        (let parsedInteger' = int32 (parsedInteger * 10 + digit_value c)
         in if parsedInteger' < 0 then Inl (IllegalFormatStringException pos)
            else ParseIntegerNumber_loop allowNegative cs (pos + 1) parsedInteger' sign False True)
      else Inr (parsedInteger, sign, foundAny, c # cs, pos))"

definition ParseIntegerNumber ::
  "string \<Rightarrow> nat \<Rightarrow> bool \<Rightarrow> int \<Rightarrow> error + (int \<times> string \<times> nat)" where
  "ParseIntegerNumber formatParameter pos allowNegative defaultValue =
     (case ParseIntegerNumber_loop allowNegative formatParameter pos 0 1 True False of
        Inl e \<Rightarrow> Inl e
      | Inr (parsed, sign, foundAny, rest, pos') \<Rightarrow>
          (let parsedInteger = (if \<not> foundAny then defaultValue else parsed)
           in if parsedInteger = 0 \<and> sign < 0 then Inl (IllegalFormatStringException pos')
              else Inr (parsedInteger * sign, rest, pos')))"

definition is_identifier_char :: "char \<Rightarrow> bool" where
  "is_identifier_char c =
     (let n = (of_char c :: nat)
      in (of_char (CHR ''a'') \<le> n \<and> n \<le> of_char (CHR ''z''))
       \<or> (of_char (CHR ''A'') \<le> n \<and> n \<le> of_char (CHR ''Z''))
       \<or> (of_char (CHR ''0'') \<le> n \<and> n \<le> of_char (CHR ''9''))
       \<or> c = CHR ''_'')"

fun ReadIdentifier :: "string \<Rightarrow> string \<Rightarrow> nat \<Rightarrow> string \<times> string \<times> nat" where
  "ReadIdentifier [] ostr pos = (ostr, [], pos)"
| "ReadIdentifier (c # cs) ostr pos =
     (if is_identifier_char c then ReadIdentifier cs (ostr @ [c]) (pos + 1)
      else (ostr, c # cs, pos))"

text \<open>
  \<^verbatim>\<open>ReadEnvironmentVariableName\<close> is entered at the \<^verbatim>\<open>$\<close>, which its assertion checks.
\<close>

fun ReadEnvironmentVariableName :: "string \<Rightarrow> string \<Rightarrow> nat \<Rightarrow> error + (string \<times> string \<times> nat)" where
  "ReadEnvironmentVariableName [] ostr pos = Inl assertion_failure"
| "ReadEnvironmentVariableName (c # cs) ostr pos =
     (if c = FORMAT_ENVIRONMENT then Inr (ReadIdentifier cs ostr (pos + 1))
      else Inl assertion_failure)"

fun ReadFormatSpecifier :: "string \<Rightarrow> nat \<Rightarrow> string \<Rightarrow> error + (string \<times> string \<times> nat)" where
  "ReadFormatSpecifier [] pos ostr = Inr (ostr, [], pos)"
| "ReadFormatSpecifier (c # cs) pos ostr =
     (if c = FORMAT_END then
        (case cs of
           [] \<Rightarrow> Inr (ostr, c # cs, pos)
         | d # ds \<Rightarrow>
             if d = FORMAT_END then ReadFormatSpecifier ds (pos + 2) (ostr @ [c])
             else Inr (ostr, c # cs, pos))
      else if c = FORMAT_START then
        (case cs of
           [] \<Rightarrow> Inl (IllegalFormatStringException pos)
         | d # ds \<Rightarrow>
             if d = FORMAT_START then ReadFormatSpecifier ds (pos + 2) (ostr @ [c])
             else Inl (IllegalFormatStringException pos))
      else ReadFormatSpecifier cs (pos + 1) (ostr @ [c]))"

subsection \<open>Fragments and field descriptors\<close>

text \<open>
  \<^verbatim>\<open>struct FormatFragment\<close>. The queue of selectors is a list: \<^verbatim>\<open>front\<close> is the head,
  \<^verbatim>\<open>push\<close> appends. A default-constructed fragment has empty strings and an empty
  queue; \<^verbatim>\<open>InitializeFormatFragment\<close> gives the other members their values.
\<close>

record FormatFragment =
  text' :: string
  formatSpecifier :: string
  selectors :: "string list"
  index :: int
  explicitConversion :: char
  handled :: bool

definition FormatFragment_default :: FormatFragment where
  "FormatFragment_default =
     \<lparr>text' = [], formatSpecifier = [], selectors = [], index = 0,
      explicitConversion = NUL, handled = False\<rparr>"

text \<open>
  \<^verbatim>\<open>ReadExplicitTypeConversion\<close>. \<^verbatim>\<open>strchr("srid", type)\<close> also finds the terminator of
  \<^verbatim>\<open>"srid"\<close>: when the template ends right after the \<^verbatim>\<open>!\<close>, the position is moved
  past the template's terminator and the next read is out of bounds.
\<close>

fun ReadExplicitTypeConversion ::
  "string \<Rightarrow> FormatFragment \<Rightarrow> nat \<Rightarrow> error + (FormatFragment \<times> string \<times> nat)" where
  "ReadExplicitTypeConversion [] fragment pos = Inr (fragment, [], pos)"
| "ReadExplicitTypeConversion (c # cs) fragment pos =
     (if c = FORMAT_EXPLICIT_TYPE then
        (case cs of
           [] \<Rightarrow> Inl undefined_behaviour
         | type # rest \<Rightarrow>
             if type \<notin> set ''srid'' then Inl (IllegalFormatStringException (pos + 1))
             else Inr (fragment\<lparr>explicitConversion := type\<rparr>, rest, pos + 2))
      else Inr (fragment, c # cs, pos))"

fun ReadSelector ::
  "string \<Rightarrow> FormatFragment \<Rightarrow> nat \<Rightarrow> error + (FormatFragment \<times> string \<times> nat)" where
  "ReadSelector [] fragment pos = Inr (fragment, [], pos)"
| "ReadSelector (selectorType # cs) fragment pos =
     (if selectorType = FORMAT_SELECTOR_OBJ \<or> selectorType = FORMAT_SELECTOR_ARRAY_BEGIN then
        (case ReadIdentifier cs [] (pos + 1) of
           (buffer, rest, pos') \<Rightarrow>
             (case rest of
                [] \<Rightarrow>
                  if selectorType = FORMAT_SELECTOR_ARRAY_BEGIN
                  then Inl (IllegalFormatStringException pos')
                  else Inr (fragment\<lparr>selectors := selectors fragment @ [buffer]\<rparr>, [], pos')
              | endSelector # rest' \<Rightarrow>
                  if selectorType = FORMAT_SELECTOR_ARRAY_BEGIN
                     \<and> endSelector \<noteq> FORMAT_SELECTOR_ARRAY_END
                  then Inl (IllegalFormatStringException pos')
                  else if endSelector = FORMAT_SELECTOR_ARRAY_END
                  then Inr (fragment\<lparr>selectors := selectors fragment @ [buffer]\<rparr>, rest', pos' + 1)
                  else Inr (fragment\<lparr>selectors := selectors fragment @ [buffer]\<rparr>, rest, pos')))
      else Inr (fragment, selectorType # cs, pos))"

lemma ReadIdentifier_length:
  "ReadIdentifier cs ostr pos = (ostr', rest, pos') \<Longrightarrow> length rest \<le> length cs"
proof (induction cs ostr pos rule: ReadIdentifier.induct)
  case (1 ostr pos)
  then show ?case by simp
next
  case (2 c cs ostr pos)
  then show ?case by (cases "is_identifier_char c") (auto simp: le_SucI)
qed

lemma ReadSelector_length:
  "ReadSelector (c # cs) fragment pos = Inr (fragment', rest, pos') \<Longrightarrow>
   c = FORMAT_SELECTOR_OBJ \<or> c = FORMAT_SELECTOR_ARRAY_BEGIN \<Longrightarrow> length rest \<le> length cs"
  by (auto split: if_splits prod.splits list.splits dest: ReadIdentifier_length)

function ReadSelectors ::
  "string \<Rightarrow> FormatFragment \<Rightarrow> nat \<Rightarrow> error + (FormatFragment \<times> string \<times> nat)" where
  "ReadSelectors [] fragment pos = Inr (fragment, [], pos)"
| "ReadSelectors (selectorType # cs) fragment pos =
     (if selectorType = FORMAT_SELECTOR_OBJ \<or> selectorType = FORMAT_SELECTOR_ARRAY_BEGIN then
        (case ReadSelector (selectorType # cs) fragment pos of
           Inl e \<Rightarrow> Inl e
         | Inr (fragment', rest, pos') \<Rightarrow> ReadSelectors rest fragment' pos')
      else Inr (fragment, selectorType # cs, pos))"
  by pat_completeness auto
termination
proof (relation "measure (\<lambda>(cs, fragment, pos). length cs)")
  show "wf (measure (\<lambda>(cs, fragment, pos). length cs))" by simp
next
  fix selectorType :: char and cs :: string and fragment :: FormatFragment and pos :: nat
    and x2 :: "FormatFragment \<times> string \<times> nat" and fragment' :: FormatFragment
    and y :: "string \<times> nat" and rest :: string and pos' :: nat
  assume sel: "selectorType = FORMAT_SELECTOR_OBJ \<or> selectorType = FORMAT_SELECTOR_ARRAY_BEGIN"
    and rs: "ReadSelector (selectorType # cs) fragment pos = Inr x2"
    and x2: "(fragment', y) = x2" and y: "(rest, pos') = y"
  from rs x2 y have "ReadSelector (selectorType # cs) fragment pos = Inr (fragment', rest, pos')"
    by simp
  from ReadSelector_length [OF this sel]
  show "((rest, fragment', pos'), selectorType # cs, fragment, pos)
        \<in> measure (\<lambda>(cs, fragment, pos). length cs)"
    by simp
qed

subsection \<open>The specifier grammar\<close>

record BasicFormatSpecifiers =
  width :: int
  precision :: int
  fill :: char
  align :: char
  sign :: char
  type :: char
  alternateForm :: bool
  thousandSeparator :: bool

definition InitializeFormatSpecifier :: BasicFormatSpecifiers where
  "InitializeFormatSpecifier =
     \<lparr>width = 0, precision = PRECISION_NOT_SET, fill = NUL, align = NUL,
      sign = FORMAT_SIGN_NEGATIVES_TOGGLE, type = NUL,
      alternateForm = False, thousandSeparator = False\<rparr>"

definition is_align_token :: "char \<Rightarrow> bool" where
  "is_align_token c =
     (c = FORMAT_ALIGN_LEFT \<or> c = FORMAT_ALIGN_RIGHT
      \<or> c = FORMAT_ALIGN_INTERNAL \<or> c = FORMAT_ALIGN_CENTER)"

fun ReadAlignSpecifier ::
  "string \<Rightarrow> BasicFormatSpecifiers \<Rightarrow> nat \<Rightarrow> BasicFormatSpecifiers \<times> string \<times> nat" where
  "ReadAlignSpecifier (fill' # align' # rest) fragment pos =
     (if is_align_token align'
      then (fragment\<lparr>align := align', fill := fill'\<rparr>, rest, pos + 2)
      else if is_align_token fill'
      then (fragment\<lparr>align := fill', fill := NUL\<rparr>, align' # rest, pos + 1)
      else (fragment, fill' # align' # rest, pos))"
| "ReadAlignSpecifier cs fragment pos = (fragment, cs, pos)"

fun ReadSignSpecifier ::
  "string \<Rightarrow> BasicFormatSpecifiers \<Rightarrow> nat \<Rightarrow> BasicFormatSpecifiers \<times> string \<times> nat" where
  "ReadSignSpecifier (sign' # rest) fragment pos =
     (if sign' = FORMAT_SIGN_ALWAYS_TOGGLE \<or> sign' = FORMAT_SIGN_NEGATIVES_TOGGLE
         \<or> sign' = FORMAT_SIGN_POSITIVE_SPACE_TOGGLE
      then (fragment\<lparr>sign := sign'\<rparr>, rest, pos + 1)
      else (fragment, sign' # rest, pos))"
| "ReadSignSpecifier [] fragment pos = (fragment, [], pos)"

fun ReadAlternateSpecifier ::
  "string \<Rightarrow> BasicFormatSpecifiers \<Rightarrow> nat \<Rightarrow> BasicFormatSpecifiers \<times> string \<times> nat" where
  "ReadAlternateSpecifier (c # rest) fragment pos =
     (if c = FORMAT_ALTERNATE_TOGGLE then (fragment\<lparr>alternateForm := True\<rparr>, rest, pos + 1)
      else (fragment, c # rest, pos))"
| "ReadAlternateSpecifier [] fragment pos = (fragment, [], pos)"

fun ReadSignAwareZeroSpecifier ::
  "string \<Rightarrow> BasicFormatSpecifiers \<Rightarrow> nat \<Rightarrow> BasicFormatSpecifiers \<times> string \<times> nat" where
  "ReadSignAwareZeroSpecifier (c # rest) fragment pos =
     (if c = FORMAT_SIGNAWARE_ZERO_TOGGLE
      then ((if align fragment = NUL
             then fragment\<lparr>fill := CHR ''0'', align := FORMAT_ALIGN_INTERNAL\<rparr>
             else fragment\<lparr>fill := CHR ''0''\<rparr>), rest, pos + 1)
      else (fragment, c # rest, pos))"
| "ReadSignAwareZeroSpecifier [] fragment pos = (fragment, [], pos)"

definition ReadWidthSpecifier ::
  "string \<Rightarrow> BasicFormatSpecifiers \<Rightarrow> nat \<Rightarrow> error + (BasicFormatSpecifiers \<times> string \<times> nat)" where
  "ReadWidthSpecifier formatParameter fragment pos =
     (case ParseIntegerNumber formatParameter pos False 0 of
        Inl e \<Rightarrow> Inl e
      | Inr (n, rest, pos') \<Rightarrow> Inr (fragment\<lparr>width := n\<rparr>, rest, pos'))"

fun ReadThousandSepSpecifier ::
  "string \<Rightarrow> BasicFormatSpecifiers \<Rightarrow> nat \<Rightarrow> BasicFormatSpecifiers \<times> string \<times> nat" where
  "ReadThousandSepSpecifier (c # rest) fragment pos =
     (if c = FORMAT_THOUSANDS_TOGGLE then (fragment\<lparr>thousandSeparator := True\<rparr>, rest, pos + 1)
      else (fragment, c # rest, pos))"
| "ReadThousandSepSpecifier [] fragment pos = (fragment, [], pos)"

fun ReadPrecisionSpecifier ::
  "string \<Rightarrow> BasicFormatSpecifiers \<Rightarrow> nat \<Rightarrow> error + (BasicFormatSpecifiers \<times> string \<times> nat)" where
  "ReadPrecisionSpecifier (c # rest) fragment pos =
     (if c = FORMAT_PRECISION_TOGGLE then
        (case ParseIntegerNumber rest (pos + 1) False (- 1) of
           Inl e \<Rightarrow> Inl e
         | Inr (n, rest', pos') \<Rightarrow> Inr (fragment\<lparr>precision := n\<rparr>, rest', pos'))
      else Inr (fragment, c # rest, pos))"
| "ReadPrecisionSpecifier [] fragment pos = Inr (fragment, [], pos)"

definition is_type_token :: "char \<Rightarrow> bool" where
  "is_type_token c =
     (c = FORMAT_BINARY_TOGGLE \<or> c = FORMAT_UNICODE_CHAR_TOGGLE
      \<or> c = FORMAT_NORMAL_NUMBER_TOGGLE \<or> c = FORMAT_SCIENTIFIC_TOGGLE
      \<or> c = FORMAT_SCIENTIFIC_UC_TOGGLE \<or> c = FORMAT_FIXED_TOGGLE
      \<or> c = FORMAT_FIXED_UC_TOGGLE \<or> c = FORMAT_GENERAL_DECIM_TOGGLE
      \<or> c = FORMAT_GENERAL_DECIM_UC_TOGGLE \<or> c = FORMAT_LOCALIZED_NUMBER_TOGGLE
      \<or> c = FORMAT_OCTAL_TOGGLE \<or> c = FORMAT_LOWERCASE_HEX_TOGGLE
      \<or> c = FORMAT_UPPERCASE_HEX_TOGGLE \<or> c = FORMAT_PERCENTAGE_MODE)"

fun ReadTypeSpecifier ::
  "string \<Rightarrow> BasicFormatSpecifiers \<Rightarrow> nat \<Rightarrow> BasicFormatSpecifiers \<times> string \<times> nat" where
  "ReadTypeSpecifier (c # rest) fragment pos =
     (if is_type_token c then (fragment\<lparr>type := c\<rparr>, rest, pos + 1)
      else (fragment, c # rest, pos))"
| "ReadTypeSpecifier [] fragment pos = (fragment, [], pos)"

text \<open>
  \<^verbatim>\<open>ConvertToBasicFormatSpecifiers\<close>: the eight readers in their fixed order, skipped
  altogether on an empty specifier.
\<close>

definition ConvertToBasicFormatSpecifiers ::
  "string \<Rightarrow> BasicFormatSpecifiers \<Rightarrow> nat \<Rightarrow> error + (BasicFormatSpecifiers \<times> string \<times> nat)" where
  "ConvertToBasicFormatSpecifiers formatParameter specifiers pos =
     (if formatParameter = [] then Inr (specifiers, formatParameter, pos)
      else
        (case ReadAlignSpecifier formatParameter specifiers pos of (s1, r1, p1) \<Rightarrow>
        (case ReadSignSpecifier r1 s1 p1 of (s2, r2, p2) \<Rightarrow>
        (case ReadAlternateSpecifier r2 s2 p2 of (s3, r3, p3) \<Rightarrow>
        (case ReadSignAwareZeroSpecifier r3 s3 p3 of (s4, r4, p4) \<Rightarrow>
        (case ReadWidthSpecifier r4 s4 p4 of
           Inl e \<Rightarrow> Inl e
         | Inr (s5, r5, p5) \<Rightarrow>
        (case ReadThousandSepSpecifier r5 s5 p5 of (s6, r6, p6) \<Rightarrow>
        (case ReadPrecisionSpecifier r6 s6 p6 of
           Inl e \<Rightarrow> Inl e
         | Inr (s7, r7, p7) \<Rightarrow> Inr (ReadTypeSpecifier r7 s7 p7)))))))))"

section \<open>Rendering\<close>

subsection \<open>The formatting state of a stream\<close>

text \<open>
  The members of \<^verbatim>\<open>std::ios_base\<close> that the source sets on its local
  \<^verbatim>\<open>std::stringstream buffer\<close>: the width, the fill character, the adjustment, the base
  and the case of integers, the sign of positive numbers, the locale, and for floating
  point the precision and the notation (\<^verbatim>\<open>std::fixed\<close>, \<^verbatim>\<open>std::scientific\<close> or neither).
\<close>

datatype adjustfield = adjust_unset | adjust_left | adjust_right | adjust_internal
datatype basefield = dec | oct | hex
datatype floatfield = float_unset | float_fixed | float_scientific
datatype std_locale = classic_locale | AlwaysCommaAsThousandsSep | user_locale

record ios_base =
  os_width :: int
  os_fill :: char
  os_adjust :: adjustfield
  os_base :: basefield
  os_uppercase :: bool
  os_showpos :: bool
  os_locale :: std_locale
  os_precision :: int
  os_floatfield :: floatfield

definition stringstream_init :: ios_base where
  "stringstream_init =
     \<lparr>os_width = 0, os_fill = CHR '' '', os_adjust = adjust_unset, os_base = dec,
      os_uppercase = False, os_showpos = False, os_locale = classic_locale,
      os_precision = 6, os_floatfield = float_unset\<rparr>"

subsection \<open>The platform\<close>

text \<open>
  What the source takes from outside the repository enters as a parameter:
  \<^item> \<open>getenv\<close>: the process environment (\<^verbatim>\<open>std::getenv\<close>; \<open>None\<close> is the null pointer);
  \<^item> \<open>int64_t_is_long_long\<close>: whether \<^verbatim>\<open>int64_t\<close> names \<^verbatim>\<open>long long\<close> (otherwise \<^verbatim>\<open>long\<close>);
  \<^item> \<open>user_locale_grouping\<close> and \<open>user_locale_decimal_point\<close>: how the user's preferred
    locale \<^verbatim>\<open>std::locale("")\<close> groups a string of digits, and its decimal point;
  \<^item> floating point. A \<^verbatim>\<open>long double\<close> is kept as the expression that produced it;
    \<open>long_double_value\<close> is the value the platform computes for it: a finite value
    \<open>Finite negative m e\<close>, which is \<open>m\<close> times two to the power \<open>e\<close> with its sign, an
    infinity, or a NaN. \<open>long_double_times_100\<close> is the product \<^verbatim>\<open>value *= 100.0\<close>.
    \<open>insert_FormatDynamicDecimal\<close> is what the inserter of \<^verbatim>\<open>FormatDynamicDecimal\<close> writes
    for a stream, a value, \<^verbatim>\<open>minPrecision\<close>, \<^verbatim>\<open>maxPrecision\<close> and \<^verbatim>\<open>scientificCeil\<close> (its
    choice of notation and precision rests on the platform's \<^verbatim>\<open>long double\<close>
    arithmetic), and \<open>insert_not_finite\<close> what the library's inserter writes for an
    infinity or a NaN. \<open>to_string_long_double\<close> is \<^verbatim>\<open>std::to_string\<close> and
    \<open>long_double_to_int64\<close> is \<^verbatim>\<open>static_cast<int64_t>\<close>.
\<close>

datatype long_double =
    LD_of_int64 int
  | LD_sqrt int
  | LD_strtold string
  | LD_literal string

datatype floating_point =
    Finite bool nat int
  | Infinite bool
  | NaN bool

record platform =
  getenv :: "string \<Rightarrow> string option"
  int64_t_is_long_long :: bool
  user_locale_grouping :: "string \<Rightarrow> string"
  user_locale_decimal_point :: char
  long_double_value :: "long_double \<Rightarrow> floating_point"
  long_double_times_100 :: "floating_point \<Rightarrow> floating_point"
  insert_FormatDynamicDecimal :: "ios_base \<Rightarrow> floating_point \<Rightarrow> int \<Rightarrow> int \<Rightarrow> int \<Rightarrow> string"
  insert_not_finite :: "ios_base \<Rightarrow> floating_point \<Rightarrow> string"
  to_string_long_double :: "long_double \<Rightarrow> string"
  long_double_to_int64 :: "long_double \<Rightarrow> int"

subsection \<open>The inserters of the library\<close>

text \<open>
  The inserters that the source uses on its buffer, as the C++ standard defines them:
  a string or character is padded with the fill character up to the width, on the right
  when the adjustment is \<^verbatim>\<open>left\<close> and on the left otherwise; an integer is converted in the
  stream's base, grouped by the stream's locale and padded likewise, except that
  \<^verbatim>\<open>internal\<close> pads after the sign.
\<close>

definition padding :: "ios_base \<Rightarrow> nat \<Rightarrow> string" where
  "padding st n = replicate (nat (os_width st) - n) (os_fill st)"

definition insert_string :: "ios_base \<Rightarrow> string \<Rightarrow> string" where
  "insert_string st s =
     (if os_adjust st = adjust_left then s @ padding st (length s)
      else padding st (length s) @ s)"

function digits_of :: "nat \<Rightarrow> string \<Rightarrow> nat \<Rightarrow> string" where
  "digits_of base alphabet n =
     (if n < base \<or> base < 2 then [alphabet ! n]
      else digits_of base alphabet (n div base) @ [alphabet ! (n mod base)])"
  by pat_completeness auto
termination
  by (relation "measure (\<lambda>(base, alphabet, n). n)") auto

declare digits_of.simps [simp del]

function group3 :: "string \<Rightarrow> string" where
  "group3 ds =
     (if length ds \<le> 3 then ds
      else group3 (take (length ds - 3) ds) @ [CHR '',''] @ drop (length ds - 3) ds)"
  by pat_completeness auto
termination
  by (relation "measure length") auto

declare group3.simps [simp del]

definition grouping :: "platform \<Rightarrow> std_locale \<Rightarrow> string \<Rightarrow> string" where
  "grouping P loc ds =
     (case loc of
        classic_locale \<Rightarrow> ds
      | AlwaysCommaAsThousandsSep \<Rightarrow> group3 ds
      | user_locale \<Rightarrow> user_locale_grouping P ds)"

definition insert_int64 :: "platform \<Rightarrow> ios_base \<Rightarrow> int \<Rightarrow> string" where
  "insert_int64 P st v =
     (let sign_text = (if os_base st = dec then
                   (if v < 0 then [CHR ''-''] else if os_showpos st then [CHR ''+''] else [])
                 else []);
          digits = (case os_base st of
                      dec \<Rightarrow> digits_of 10 ''0123456789'' (nat \<bar>v\<bar>)
                    | oct \<Rightarrow> digits_of 8 ''01234567'' (nat (v mod 18446744073709551616))
                    | hex \<Rightarrow> digits_of 16
                        (if os_uppercase st then ''0123456789ABCDEF'' else ''0123456789abcdef'')
                        (nat (v mod 18446744073709551616)));
          body = grouping P (os_locale st) digits;
          pad = padding st (length sign_text + length body)
      in if os_adjust st = adjust_left then sign_text @ body @ pad
         else if os_adjust st = adjust_internal then sign_text @ pad @ body
         else pad @ sign_text @ body)"

definition to_string_int64 :: "int \<Rightarrow> string" where
  "to_string_int64 v =
     (if v < 0 then [CHR ''-''] else []) @ digits_of 10 ''0123456789'' (nat \<bar>v\<bar>)"

text \<open>Division of \<^verbatim>\<open>int\<close>s truncates towards zero.\<close>

definition int_div :: "int \<Rightarrow> int \<Rightarrow> int" where
  "int_div a b = sgn a * sgn b * (\<bar>a\<bar> div \<bar>b\<bar>)"

text \<open>
  The inserter of a \<^verbatim>\<open>long double\<close> writes what \<^verbatim>\<open>printf\<close> writes under the conversion
  that the stream's notation selects, with the stream's precision: \<^verbatim>\<open>%Lf\<close> for
  \<^verbatim>\<open>fixed\<close>, \<^verbatim>\<open>%Le\<close> for \<^verbatim>\<open>scientific\<close>, and \<^verbatim>\<open>%Lg\<close> when neither is set. The digits are
  those of the exact value \<open>n / d\<close>, rounded to the nearest decimal of the requested
  length, a tie to the even one.

  \<open>round_half_even n d\<close> is the integer nearest to \<open>n / d\<close>, and \<open>rounded n d k\<close> the
  integer nearest to \<open>n / d\<close> times ten to the power \<open>k\<close>.
\<close>

definition numerator :: "nat \<Rightarrow> int \<Rightarrow> nat" where
  "numerator m e = (if 0 \<le> e then m * 2 ^ nat e else m)"

definition denominator :: "int \<Rightarrow> nat" where
  "denominator e = (if 0 \<le> e then 1 else 2 ^ nat (- e))"

definition round_half_even :: "nat \<Rightarrow> nat \<Rightarrow> nat" where
  "round_half_even n d =
     (let q = n div d; r = n mod d
      in if 2 * r < d then q
         else if d < 2 * r then q + 1
         else if even q then q else q + 1)"

definition rounded :: "nat \<Rightarrow> nat \<Rightarrow> int \<Rightarrow> nat" where
  "rounded n d k =
     (if 0 \<le> k then round_half_even (n * 10 ^ nat k) d
      else round_half_even n (d * 10 ^ nat (- k)))"

text \<open>
  The decimal exponent of \<open>n / d\<close>: for \<open>d \<le> n\<close> the number of times that \<open>d\<close> can be
  multiplied by ten without exceeding \<open>n\<close>, otherwise minus the number of times that
  \<open>n\<close> must be multiplied by ten to reach \<open>d\<close>. \<open>decimal_exponent n d digits\<close> is the
  exponent of the value once it is rounded to \<open>digits\<close> significant digits (rounding
  may carry into the next power of ten); the exponent of zero is zero.
\<close>

function ilog10_ge :: "nat \<Rightarrow> nat \<Rightarrow> nat" where
  "ilog10_ge n d = (if 0 < d \<and> 10 * d \<le> n then Suc (ilog10_ge n (10 * d)) else 0)"
  by pat_completeness auto
termination
  by (relation "measure (\<lambda>(n, d). n - d)") auto

declare ilog10_ge.simps [simp del]

function ilog10_lt :: "nat \<Rightarrow> nat \<Rightarrow> nat" where
  "ilog10_lt n d = (if 0 < n \<and> n < d then Suc (ilog10_lt (10 * n) d) else 0)"
  by pat_completeness auto
termination
  by (relation "measure (\<lambda>(n, d). d - n)") auto

declare ilog10_lt.simps [simp del]

definition decimal_exponent :: "nat \<Rightarrow> nat \<Rightarrow> nat \<Rightarrow> int" where
  "decimal_exponent n d digits =
     (if n = 0 then 0
      else (let X = (if d \<le> n then int (ilog10_ge n d) else - int (ilog10_lt n d))
            in if 10 ^ digits \<le> rounded n d (int digits - 1 - X) then X + 1 else X))"

definition zero_padded :: "nat \<Rightarrow> nat \<Rightarrow> string" where
  "zero_padded w k =
     (let ds = digits_of 10 ''0123456789'' k
      in replicate (w - length ds) (CHR ''0'') @ ds)"

text \<open>
  \<open>fixed_notation p n d\<close>: the digits before and after the decimal point under \<^verbatim>\<open>%.pf\<close>.
  \<open>scientific_notation p n d\<close>: the digit before the point, the \<open>p\<close> digits after it and
  the exponent under \<^verbatim>\<open>%.pe\<close>.
\<close>

definition fixed_notation :: "nat \<Rightarrow> nat \<Rightarrow> nat \<Rightarrow> string \<times> string" where
  "fixed_notation p n d =
     (let N = rounded n d (int p)
      in (digits_of 10 ''0123456789'' (N div 10 ^ p),
          if p = 0 then [] else zero_padded p (N mod 10 ^ p)))"

definition scientific_notation :: "nat \<Rightarrow> nat \<Rightarrow> nat \<Rightarrow> string \<times> string \<times> int" where
  "scientific_notation p n d =
     (let X = decimal_exponent n d (p + 1);
          N = rounded n d (int p - X)
      in (digits_of 10 ''0123456789'' (N div 10 ^ p),
          if p = 0 then [] else zero_padded p (N mod 10 ^ p),
          X))"

definition exponent_text :: "int \<Rightarrow> string" where
  "exponent_text X = (if X < 0 then CHR ''-'' else CHR ''+'') # zero_padded 2 (nat \<bar>X\<bar>)"

definition decimal_point :: "platform \<Rightarrow> std_locale \<Rightarrow> char" where
  "decimal_point P loc = (if loc = user_locale then user_locale_decimal_point P else CHR ''.'')"

definition with_point :: "platform \<Rightarrow> std_locale \<Rightarrow> string \<Rightarrow> string \<Rightarrow> string" where
  "with_point P loc integral fractional =
     (if fractional = [] then integral else integral @ decimal_point P loc # fractional)"

definition strip_zeros :: "string \<Rightarrow> string" where
  "strip_zeros fractional = rev (dropWhile (\<lambda>c. c = CHR ''0'') (rev fractional))"

text \<open>
  The text of the value \<open>n / d\<close> without its sign. Under \<^verbatim>\<open>%g\<close> a precision of zero
  counts as one, the notation is the fixed one when the exponent \<open>X\<close> of the rounded
  value satisfies \<open>-4 \<le> X < precision\<close>, and trailing zeros after the point are
  removed, with the point when nothing follows it. The digits before the point of the
  fixed notation are grouped by the stream's locale.
\<close>

definition floating_text :: "platform \<Rightarrow> ios_base \<Rightarrow> nat \<Rightarrow> nat \<Rightarrow> string" where
  "floating_text P st n d =
     (let p = (if os_precision st < 0 then 6 else nat (os_precision st));
          loc = os_locale st;
          e = (if os_uppercase st then CHR ''E'' else CHR ''e'')
      in case os_floatfield st of
           float_fixed \<Rightarrow>
             (case fixed_notation p n d of
                (integral, fractional) \<Rightarrow> with_point P loc (grouping P loc integral) fractional)
         | float_scientific \<Rightarrow>
             (case scientific_notation p n d of
                (integral, fractional, X) \<Rightarrow>
                  with_point P loc integral fractional @ e # exponent_text X)
         | float_unset \<Rightarrow>
             (let digits = (if p = 0 then 1 else p);
                  X = decimal_exponent n d digits
              in if - 4 \<le> X \<and> X < int digits
                 then (case fixed_notation (nat (int digits - 1 - X)) n d of
                         (integral, fractional) \<Rightarrow>
                           with_point P loc (grouping P loc integral) (strip_zeros fractional))
                 else (case scientific_notation (digits - 1) n d of
                         (integral, fractional, X') \<Rightarrow>
                           with_point P loc integral (strip_zeros fractional)
                           @ e # exponent_text X')))"

definition insert_long_double :: "platform \<Rightarrow> ios_base \<Rightarrow> floating_point \<Rightarrow> string" where
  "insert_long_double P st v =
     (case v of
        Finite negative m e \<Rightarrow>
          (let sign_text = (if negative then [CHR ''-'']
                            else if os_showpos st then [CHR ''+''] else []);
               body = floating_text P st (numerator m e) (denominator e);
               pad = padding st (length sign_text + length body)
           in if os_adjust st = adjust_left then sign_text @ body @ pad
              else if os_adjust st = adjust_internal then sign_text @ pad @ body
              else pad @ sign_text @ body)
      | Infinite negative \<Rightarrow> insert_not_finite P st v
      | NaN negative \<Rightarrow> insert_not_finite P st v)"

subsection \<open>Text\<close>

definition PreprocessStreamForString :: "BasicFormatSpecifiers \<Rightarrow> ios_base \<Rightarrow> ios_base" where
  "PreprocessStreamForString specifiers ostr =
     (let ostr1 = ostr\<lparr>os_width := width specifiers\<rparr>;
          ostr2 = (if fill specifiers \<noteq> NUL then ostr1\<lparr>os_fill := fill specifiers\<rparr> else ostr1)
      in if align specifiers = FORMAT_ALIGN_RIGHT then ostr2\<lparr>os_adjust := adjust_right\<rparr>
         else if align specifiers = FORMAT_ALIGN_INTERNAL then ostr2\<lparr>os_adjust := adjust_internal\<rparr>
         else if align specifiers = FORMAT_ALIGN_CENTER then ostr2\<lparr>os_width := 0\<rparr>
         else ostr2\<lparr>os_adjust := adjust_left\<rparr>)"

definition PostprocessStreamForString ::
  "string \<Rightarrow> BasicFormatSpecifiers \<Rightarrow> string \<Rightarrow> string" where
  "PostprocessStreamForString writtenString specifiers ostr =
     (let contentWidth = int (length writtenString);
          addPadding = (align specifiers = FORMAT_ALIGN_CENTER);
          fillCharToUse = (if fill specifiers \<noteq> NUL then fill specifiers else CHR '' '');
          truncate = (precision specifiers > 0 \<and> precision specifiers < contentWidth);
          writtenString' = (if truncate then take (nat (precision specifiers)) writtenString
                            else writtenString);
          contentWidth' = (if truncate then precision specifiers else contentWidth);
          addPadding' = (if truncate \<and> width specifiers > precision specifiers then True
                         else addPadding);
          paddingLeft =
            (if addPadding' then
               (if align specifiers = FORMAT_ALIGN_LEFT then 0
                else if align specifiers = FORMAT_ALIGN_CENTER
                then int_div (width specifiers - contentWidth') 2
                else width specifiers - contentWidth')
             else 0);
          paddingRight =
            (if addPadding' then
               (if align specifiers = FORMAT_ALIGN_LEFT then width specifiers - contentWidth'
                else if align specifiers = FORMAT_ALIGN_CENTER
                then width specifiers - paddingLeft - contentWidth'
                else 0)
             else 0)
      in ostr
         @ (if addPadding' \<and> paddingLeft > 0 then replicate (nat paddingLeft) fillCharToUse else [])
         @ writtenString'
         @ (if addPadding' \<and> paddingRight > 0 then replicate (nat paddingRight) fillCharToUse else []))"

text \<open>\<^verbatim>\<open>FormatType(const char*, const char*, std::ostream&)\<close>.\<close>

definition FormatType_cstr :: "string \<Rightarrow> string \<Rightarrow> string \<Rightarrow> error + string" where
  "FormatType_cstr value formatSpecifier' output =
     (case ConvertToBasicFormatSpecifiers formatSpecifier' InitializeFormatSpecifier 0 of
        Inl e \<Rightarrow> Inl e
      | Inr (specifiers, rest, pos) \<Rightarrow>
          (let buffer = PreprocessStreamForString specifiers stringstream_init
           in Inr (PostprocessStreamForString (insert_string buffer value) specifiers output)))"

subsection \<open>Integers\<close>

text \<open>
  \<^verbatim>\<open>PreprocessStreamForInteger\<close> returns the stream state, the text it has written itself
  (the binary digits) and \<^verbatim>\<open>useValue\<close>.
\<close>

definition bitset64_to_string :: "int \<Rightarrow> string" where
  "bitset64_to_string v =
     map (\<lambda>i. if bit (v mod 18446744073709551616) i then CHR ''1'' else CHR ''0'') (rev [0..<64])"

definition PreprocessStreamForInteger ::
  "BasicFormatSpecifiers \<Rightarrow> ios_base \<Rightarrow> int \<Rightarrow> ios_base \<times> string \<times> bool" where
  "PreprocessStreamForInteger specifiers ostr value =
     (let ostr1 = ostr\<lparr>os_width := width specifiers\<rparr>;
          ostr2 = (if fill specifiers \<noteq> NUL then ostr1\<lparr>os_fill := fill specifiers\<rparr> else ostr1);
          ostr3 = (if thousandSeparator specifiers
                   then ostr2\<lparr>os_locale := AlwaysCommaAsThousandsSep\<rparr> else ostr2);
          ostr4 = (if sign specifiers = FORMAT_SIGN_ALWAYS_TOGGLE then ostr3\<lparr>os_showpos := True\<rparr>
                   else if sign specifiers = FORMAT_SIGN_POSITIVE_SPACE_TOGGLE
                   then ostr3\<lparr>os_width := 0\<rparr>
                   else ostr3);
          ostr5 = (if align specifiers = FORMAT_ALIGN_LEFT then ostr4\<lparr>os_adjust := adjust_left\<rparr>
                   else if align specifiers = FORMAT_ALIGN_INTERNAL
                   then ostr4\<lparr>os_adjust := adjust_internal\<rparr>
                   else if align specifiers = FORMAT_ALIGN_CENTER then ostr4\<lparr>os_width := 0\<rparr>
                   else ostr4\<lparr>os_adjust := adjust_right\<rparr>)
      in if type specifiers = FORMAT_BINARY_TOGGLE then
           (let ostr6 = ostr5\<lparr>os_showpos := False\<rparr>;
                binaryString = bitset64_to_string value;
                index' = length (takeWhile (\<lambda>c. c = CHR ''0'') (take 63 binaryString))
            in (ostr6\<lparr>os_width := 0\<rparr>, insert_string ostr6 (drop index' binaryString), False))
         else if type specifiers = FORMAT_OCTAL_TOGGLE then (ostr5\<lparr>os_base := oct\<rparr>, [], True)
         else if type specifiers = FORMAT_UPPERCASE_HEX_TOGGLE
         then (ostr5\<lparr>os_uppercase := True, os_base := hex\<rparr>, [], True)
         else if type specifiers = FORMAT_LOWERCASE_HEX_TOGGLE then (ostr5\<lparr>os_base := hex\<rparr>, [], True)
         else if type specifiers = FORMAT_LOCALIZED_NUMBER_TOGGLE
         then (ostr5\<lparr>os_locale := user_locale\<rparr>, [], True)
         else (ostr5, [], True))"

definition PostprocessStreamForInteger ::
  "string \<Rightarrow> BasicFormatSpecifiers \<Rightarrow> string \<Rightarrow> int \<Rightarrow> string" where
  "PostprocessStreamForInteger writtenString specifiers ostr value =
     (let space = (sign specifiers = FORMAT_SIGN_POSITIVE_SPACE_TOGGLE);
          addPadding = (space \<or> align specifiers = FORMAT_ALIGN_CENTER);
          fillCharToUse = (if fill specifiers \<noteq> NUL then fill specifiers else CHR '' '');
          eraseSign = (space \<and> value < 0 \<and> align specifiers = FORMAT_ALIGN_INTERNAL);
          contentWidth =
            int (length writtenString)
            + (if space \<and> value \<ge> 0 then 1 else 0)
            + (if alternateForm specifiers
                  \<and> (type specifiers \<in> set ''boxX'' \<or> type specifiers = NUL) then 2 else 0);
          writtenString' = (if eraseSign then drop 1 writtenString else writtenString);
          paddingLeft =
            (if addPadding then
               (if align specifiers = FORMAT_ALIGN_LEFT then 0
                else if align specifiers = FORMAT_ALIGN_CENTER
                then int_div (width specifiers - contentWidth) 2
                else if align specifiers = FORMAT_ALIGN_INTERNAL then 0
                else width specifiers - contentWidth)
             else 0);
          paddingCenter =
            (if addPadding \<and> align specifiers = FORMAT_ALIGN_INTERNAL
             then width specifiers - contentWidth else 0);
          paddingRight =
            (if addPadding then
               (if align specifiers = FORMAT_ALIGN_LEFT then width specifiers - contentWidth
                else if align specifiers = FORMAT_ALIGN_CENTER
                then width specifiers - paddingLeft - contentWidth
                else 0)
             else 0)
      in ostr
         @ (if addPadding \<and> paddingLeft > 0 then replicate (nat paddingLeft) fillCharToUse else [])
         @ (if space \<and> value \<ge> 0 then [CHR '' ''] else if eraseSign then [CHR ''-''] else [])
         @ (if addPadding \<and> paddingCenter > 0 then replicate (nat paddingCenter) fillCharToUse
            else [])
         @ (if alternateForm specifiers then
              (if type specifiers = FORMAT_BINARY_TOGGLE then ''0b''
               else if type specifiers = FORMAT_OCTAL_TOGGLE then ''0o''
               else if type specifiers = FORMAT_LOWERCASE_HEX_TOGGLE then ''0x''
               else if type specifiers = FORMAT_UPPERCASE_HEX_TOGGLE then ''0X''
               else [])
            else [])
         @ writtenString'
         @ (if addPadding \<and> paddingRight > 0 then replicate (nat paddingRight) fillCharToUse else []))"

text \<open>\<^verbatim>\<open>FormatType(int64_t, const char*, std::ostream&)\<close>.\<close>

definition FormatType_int64 :: "platform \<Rightarrow> int \<Rightarrow> string \<Rightarrow> string \<Rightarrow> error + string" where
  "FormatType_int64 P value formatSpecifier' output =
     (case ConvertToBasicFormatSpecifiers formatSpecifier' InitializeFormatSpecifier 0 of
        Inl e \<Rightarrow> Inl e
      | Inr (specifiers, rest, pos) \<Rightarrow>
          (case PreprocessStreamForInteger specifiers stringstream_init value of
             (buffer, written, useValue) \<Rightarrow>
               Inr (PostprocessStreamForInteger
                      (if useValue then written @ insert_int64 P buffer value else written)
                      specifiers output value)))"

subsection \<open>Floating point\<close>

text \<open>
  The comparisons \<^verbatim>\<open>value < 0\<close> and \<^verbatim>\<open>value >= 0\<close> of a \<^verbatim>\<open>long double\<close>: a zero of either
  sign is not less than zero, and a NaN compares false.
\<close>

definition less_than_zero :: "floating_point \<Rightarrow> bool" where
  "less_than_zero v =
     (case v of
        Finite negative m e \<Rightarrow> negative \<and> 0 < m
      | Infinite negative \<Rightarrow> negative
      | NaN negative \<Rightarrow> False)"

definition at_least_zero :: "floating_point \<Rightarrow> bool" where
  "at_least_zero v =
     (case v of
        Finite negative m e \<Rightarrow> \<not> negative \<or> m = 0
      | Infinite negative \<Rightarrow> \<not> negative
      | NaN negative \<Rightarrow> False)"

abbreviation (input) DOUBLE_MAX_DEFAULT_PRECISION :: int where "DOUBLE_MAX_DEFAULT_PRECISION \<equiv> 16"

text \<open>
  \<^verbatim>\<open>PreprocessStreamForDecimal\<close> returns the stream state, the value (multiplied by 100
  in percentage mode), \<^verbatim>\<open>useValue\<close>, \<^verbatim>\<open>useDynamic\<close>, \<^verbatim>\<open>minPrecision\<close>, \<^verbatim>\<open>maxPrecision\<close>
  (which it leaves as the caller set it, unless the type sets it) and
  \<^verbatim>\<open>scientificCeil\<close>. In the \<^verbatim>\<open>switch\<close> on the type, \<^verbatim>\<open>E\<close> falls through to \<^verbatim>\<open>e\<close>, \<^verbatim>\<open>G\<close> to
  \<^verbatim>\<open>g\<close>, and \<^verbatim>\<open>%\<close> to \<^verbatim>\<open>F\<close> and on to \<^verbatim>\<open>f\<close>.
\<close>

definition PreprocessStreamForDecimal ::
  "platform \<Rightarrow> BasicFormatSpecifiers \<Rightarrow> ios_base \<Rightarrow> floating_point \<Rightarrow> int
    \<Rightarrow> ios_base \<times> floating_point \<times> bool \<times> bool \<times> int \<times> int \<times> int" where
  "PreprocessStreamForDecimal P specifiers ostr value maxPrecision =
     (let ostr1 = ostr\<lparr>os_width := width specifiers\<rparr>;
          ostr2 = (if fill specifiers \<noteq> NUL then ostr1\<lparr>os_fill := fill specifiers\<rparr> else ostr1);
          ostr3 = (if precision specifiers \<ge> 0
                   then ostr2\<lparr>os_precision := precision specifiers\<rparr> else ostr2);
          ostr4 = (if thousandSeparator specifiers
                   then ostr3\<lparr>os_locale := AlwaysCommaAsThousandsSep\<rparr> else ostr3);
          ostr5 = (if sign specifiers = FORMAT_SIGN_ALWAYS_TOGGLE then ostr4\<lparr>os_showpos := True\<rparr>
                   else if sign specifiers = FORMAT_SIGN_POSITIVE_SPACE_TOGGLE
                   then ostr4\<lparr>os_width := 0\<rparr>
                   else ostr4);
          ostr6 = (if align specifiers = FORMAT_ALIGN_LEFT then ostr5\<lparr>os_adjust := adjust_left\<rparr>
                   else if align specifiers = FORMAT_ALIGN_INTERNAL
                   then ostr5\<lparr>os_adjust := adjust_internal\<rparr>
                   else if align specifiers = FORMAT_ALIGN_CENTER then ostr5\<lparr>os_width := 0\<rparr>
                   else ostr5\<lparr>os_adjust := adjust_right\<rparr>);
          notSet = (precision specifiers = PRECISION_NOT_SET)
      in if type specifiers = FORMAT_SCIENTIFIC_UC_TOGGLE \<or> type specifiers = FORMAT_SCIENTIFIC_TOGGLE
         then
           (let ostr7 = (if type specifiers = FORMAT_SCIENTIFIC_UC_TOGGLE
                         then ostr6\<lparr>os_uppercase := True\<rparr> else ostr6);
                ostr8 = (if notSet then ostr7\<lparr>os_precision := 6\<rparr> else ostr7)
            in (ostr8\<lparr>os_floatfield := float_scientific\<rparr>, value, True, \<not> notSet,
                1, maxPrecision, 0))
         else if type specifiers = FORMAT_GENERAL_DECIM_UC_TOGGLE
         then (ostr6\<lparr>os_uppercase := True\<rparr>, value, True, True, 0, 6, 6)
         else if type specifiers = FORMAT_GENERAL_DECIM_TOGGLE
         then (ostr6, value, True, True, 0, 6, 6)
         else if type specifiers = FORMAT_LOCALIZED_NUMBER_TOGGLE
         then (ostr6\<lparr>os_locale := user_locale\<rparr>, value, True, True, 0, 6, 6)
         else if type specifiers = FORMAT_PERCENTAGE_MODE \<or> type specifiers = FORMAT_FIXED_UC_TOGGLE
                 \<or> type specifiers = FORMAT_FIXED_TOGGLE
         then
           (let value' = (if type specifiers = FORMAT_PERCENTAGE_MODE
                          then long_double_times_100 P value else value);
                ostr7 = (if type specifiers = FORMAT_FIXED_TOGGLE
                         then ostr6 else ostr6\<lparr>os_uppercase := True\<rparr>);
                ostr8 = (if notSet then ostr7\<lparr>os_precision := 6\<rparr> else ostr7)
            in (ostr8\<lparr>os_floatfield := float_fixed\<rparr>, value', True, \<not> notSet,
                1, maxPrecision, 0))
         else (ostr6, value, True, True, 1, maxPrecision, 0))"

definition PostprocessStreamForDecimal ::
  "string \<Rightarrow> BasicFormatSpecifiers \<Rightarrow> string \<Rightarrow> floating_point \<Rightarrow> string" where
  "PostprocessStreamForDecimal writtenString specifiers ostr value =
     (let space = (sign specifiers = FORMAT_SIGN_POSITIVE_SPACE_TOGGLE);
          addPadding = (space \<or> align specifiers = FORMAT_ALIGN_CENTER);
          fillCharToUse = (if fill specifiers \<noteq> NUL then fill specifiers else CHR '' '');
          eraseSign = (space \<and> \<not> at_least_zero value \<and> less_than_zero value
                       \<and> align specifiers = FORMAT_ALIGN_INTERNAL);
          contentWidth =
            int (length writtenString)
            + (if space \<and> at_least_zero value then 1 else 0)
            + (if alternateForm specifiers
                  \<and> (type specifiers \<in> set ''boxX'' \<or> type specifiers = NUL) then 2 else 0);
          writtenString' = (if eraseSign then drop 1 writtenString else writtenString);
          paddingLeft =
            (if addPadding then
               (if align specifiers = FORMAT_ALIGN_LEFT then 0
                else if align specifiers = FORMAT_ALIGN_CENTER
                then int_div (width specifiers - contentWidth) 2
                else if align specifiers = FORMAT_ALIGN_INTERNAL then 0
                else width specifiers - contentWidth)
             else 0);
          paddingCenter =
            (if addPadding \<and> align specifiers = FORMAT_ALIGN_INTERNAL
             then width specifiers - contentWidth else 0);
          paddingRight =
            (if addPadding then
               (if align specifiers = FORMAT_ALIGN_LEFT then width specifiers - contentWidth
                else if align specifiers = FORMAT_ALIGN_CENTER
                then width specifiers - paddingLeft - contentWidth
                else 0)
             else 0)
      in ostr
         @ (if addPadding \<and> paddingLeft > 0 then replicate (nat paddingLeft) fillCharToUse else [])
         @ (if space \<and> at_least_zero value then [CHR '' ''] else if eraseSign then [CHR ''-''] else [])
         @ (if addPadding \<and> paddingCenter > 0 then replicate (nat paddingCenter) fillCharToUse
            else [])
         @ (if alternateForm specifiers then
              (if type specifiers = FORMAT_BINARY_TOGGLE then ''0b''
               else if type specifiers = FORMAT_OCTAL_TOGGLE then ''0o''
               else if type specifiers = FORMAT_LOWERCASE_HEX_TOGGLE then ''0x''
               else if type specifiers = FORMAT_UPPERCASE_HEX_TOGGLE then ''0X''
               else [])
            else [])
         @ writtenString'
         @ (if type specifiers = FORMAT_PERCENTAGE_MODE then [FORMAT_PERCENTAGE_MODE] else [])
         @ (if addPadding \<and> paddingRight > 0 then replicate (nat paddingRight) fillCharToUse else []))"

text \<open>
  \<^verbatim>\<open>FormatType(long double, const char*, std::ostream&)\<close>; it returns the text that it
  writes. Without a precision in the specifier (and unless the type has set a precision
  of its own) the value is written by \<^verbatim>\<open>FormatDynamicDecimal\<close>; with one, by the
  library's inserter under that precision.
\<close>

definition FormatType_long_double :: "platform \<Rightarrow> long_double \<Rightarrow> string \<Rightarrow> error + string" where
  "FormatType_long_double P value formatSpecifier' =
     (case ConvertToBasicFormatSpecifiers formatSpecifier' InitializeFormatSpecifier 0 of
        Inl e \<Rightarrow> Inl e
      | Inr (specifiers, rest, pos) \<Rightarrow>
          (case PreprocessStreamForDecimal P specifiers stringstream_init
                  (long_double_value P value) DOUBLE_MAX_DEFAULT_PRECISION of
             (buffer, value', useValue, useDynamic, minPrecision, maxPrecision, scientificCeil) \<Rightarrow>
               Inr (PostprocessStreamForDecimal
                      (if useValue then
                         (if useDynamic \<and> precision specifiers = PRECISION_NOT_SET
                          then insert_FormatDynamicDecimal P buffer value'
                                 minPrecision maxPrecision scientificCeil
                          else insert_long_double P buffer value')
                       else [])
                      specifiers [] value')))"

subsection \<open>Arguments\<close>

text \<open>
  \<^verbatim>\<open>Format\<close> is a variadic template; the overloads and templates that an argument's static
  type selects are a case distinction on the argument:
  \<^item> \<open>Integral\<close>: \<^verbatim>\<open>short\<close>, \<^verbatim>\<open>int\<close>, \<^verbatim>\<open>int64_t\<close> (each is cast to \<^verbatim>\<open>int64_t\<close>);
  \<^item> \<open>Floating\<close>: \<^verbatim>\<open>float\<close>, \<^verbatim>\<open>double\<close>, \<^verbatim>\<open>long double\<close>;
  \<^item> \<open>Boolean\<close>: \<^verbatim>\<open>bool\<close>;
  \<^item> \<open>Textual\<close>: \<^verbatim>\<open>const char*\<close> and \<^verbatim>\<open>std::string\<close>;
  \<^item> \<open>Sequence\<close>: a type with an \<^verbatim>\<open>iterator\<close> and no \<^verbatim>\<open>mapped_type\<close>;
  \<^item> \<open>TextMap\<close>: a map whose \<^verbatim>\<open>key_type\<close> is \<^verbatim>\<open>std::string\<close>, as its entries in
    iteration order;
  \<^item> \<open>Pair\<close>: a type with \<^verbatim>\<open>first_type\<close> and \<^verbatim>\<open>second_type\<close>.
\<close>

datatype arg =
    Integral int
  | Floating long_double
  | Boolean bool
  | Textual string
  | Sequence "arg list"
  | TextMap "(string \<times> arg) list"
  | Pair arg arg

abbreviation (input) FORMAT_ARRAY_OPEN :: string where "FORMAT_ARRAY_OPEN \<equiv> ''[''"
abbreviation (input) FORMAT_ARRAY_CLOSE :: string where "FORMAT_ARRAY_CLOSE \<equiv> '']''"
abbreviation (input) FORMAT_ARRAY_SEP :: string where "FORMAT_ARRAY_SEP \<equiv> '', ''"
abbreviation (input) FORMAT_MAP_OPEN :: string where "FORMAT_MAP_OPEN \<equiv> ''{''"
abbreviation (input) FORMAT_MAP_CLOSE :: string where "FORMAT_MAP_CLOSE \<equiv> ''}''"
abbreviation (input) FORMAT_MAP_SEP :: string where "FORMAT_MAP_SEP \<equiv> '', ''"
abbreviation (input) FORMAT_PAIR_OPEN :: string where "FORMAT_PAIR_OPEN \<equiv> []"
abbreviation (input) FORMAT_PAIR_CLOSE :: string where "FORMAT_PAIR_CLOSE \<equiv> []"
abbreviation (input) FORMAT_PAIR_SEP :: string where "FORMAT_PAIR_SEP \<equiv> '': ''"

text \<open>
  \<^verbatim>\<open>FormatType\<close>, by overload. \<open>FormatType_elements\<close> is the loop of the container
  template over the elements, with its flag \<^verbatim>\<open>first\<close>; \<open>FormatType_entries\<close> is the same
  loop over the entries of a map, each a pair of a \<^verbatim>\<open>std::string\<close> and a value.
\<close>

fun FormatType :: "platform \<Rightarrow> arg \<Rightarrow> string \<Rightarrow> string \<Rightarrow> error + string"
  and FormatType_elements :: "platform \<Rightarrow> arg list \<Rightarrow> string \<Rightarrow> bool \<Rightarrow> string \<Rightarrow> error + string"
  and FormatType_entries ::
    "platform \<Rightarrow> (string \<times> arg) list \<Rightarrow> string \<Rightarrow> bool \<Rightarrow> string \<Rightarrow> error + string" where
  "FormatType P (Integral v) spec output = FormatType_int64 P v spec output"
| "FormatType P (Floating v) spec output =
     (case FormatType_long_double P v spec of
        Inl e \<Rightarrow> Inl e
      | Inr written \<Rightarrow> Inr (output @ written))"
| "FormatType P (Boolean b) spec output = FormatType_int64 P (if b then 1 else 0) spec output"
| "FormatType P (Textual s) spec output = FormatType_cstr s spec output"
| "FormatType P (Sequence container) spec output =
     (case FormatType_elements P container spec True (output @ FORMAT_ARRAY_OPEN) of
        Inl e \<Rightarrow> Inl e
      | Inr output' \<Rightarrow> Inr (output' @ FORMAT_ARRAY_CLOSE))"
| "FormatType P (TextMap container) spec output =
     (case FormatType_entries P container spec True (output @ FORMAT_MAP_OPEN) of
        Inl e \<Rightarrow> Inl e
      | Inr output' \<Rightarrow> Inr (output' @ FORMAT_MAP_CLOSE))"
| "FormatType P (Pair a b) spec output =
     (case FormatType P a spec (output @ FORMAT_PAIR_OPEN) of
        Inl e \<Rightarrow> Inl e
      | Inr output1 \<Rightarrow>
          (case FormatType P b spec (output1 @ FORMAT_PAIR_SEP) of
             Inl e \<Rightarrow> Inl e
           | Inr output2 \<Rightarrow> Inr (output2 @ FORMAT_PAIR_CLOSE)))"
| "FormatType_elements P [] spec first output = Inr output"
| "FormatType_elements P (elem # rest) spec first output =
     (case FormatType P elem spec (if first then output else output @ FORMAT_ARRAY_SEP) of
        Inl e \<Rightarrow> Inl e
      | Inr output' \<Rightarrow> FormatType_elements P rest spec False output')"
| "FormatType_entries P [] spec first output = Inr output"
| "FormatType_entries P ((k, v) # rest) spec first output =
     (case FormatType_cstr k spec
             ((if first then output else output @ FORMAT_MAP_SEP) @ FORMAT_PAIR_OPEN) of
        Inl e \<Rightarrow> Inl e
      | Inr output1 \<Rightarrow>
          (case FormatType P v spec (output1 @ FORMAT_PAIR_SEP) of
             Inl e \<Rightarrow> Inl e
           | Inr output2 \<Rightarrow> FormatType_entries P rest spec False (output2 @ FORMAT_PAIR_CLOSE)))"

subsection \<open>Explicit conversions and selectors\<close>

text \<open>
  \<^verbatim>\<open>std::strtoll(value, &dummy, 10)\<close>: leading white space, an optional sign, the
  decimal digits that follow, clamped to the range of \<^verbatim>\<open>long long\<close>; zero when there
  are no digits.
\<close>

definition isspace :: "char \<Rightarrow> bool" where
  "isspace c = (c = CHR '' '' \<or> c = CHR 0x09 \<or> c = CHR 0x0A \<or> c = CHR 0x0B
                \<or> c = CHR 0x0C \<or> c = CHR 0x0D)"

definition strtoll :: "string \<Rightarrow> int" where
  "strtoll s =
     (let s1 = dropWhile isspace s;
          negative = (take 1 s1 = [CHR ''-'']);
          s2 = (if take 1 s1 = [CHR ''-''] \<or> take 1 s1 = [CHR ''+''] then drop 1 s1 else s1);
          n = foldl (\<lambda>acc c. acc * 10 + digit_value c) 0 (takeWhile is_digit s2);
          v = (if negative then - n else n)
      in max (- 9223372036854775808) (min 9223372036854775807 v))"

text \<open>
  Every \<^verbatim>\<open>ConvertAndFormatType\<close> returns its \<^verbatim>\<open>bool\<close>, the fragment (whose queue of
  selectors it may have popped) and the output.
\<close>

definition ConvertAndFormatType_long_double ::
  "platform \<Rightarrow> long_double \<Rightarrow> FormatFragment \<Rightarrow> string
    \<Rightarrow> error + (bool \<times> FormatFragment \<times> string)" where
  "ConvertAndFormatType_long_double P value fragment output =
     (case (if explicitConversion fragment = CHR ''s'' \<or> explicitConversion fragment = CHR ''r''
            then FormatType_cstr (to_string_long_double P value) (formatSpecifier fragment) output
            else if explicitConversion fragment = CHR ''i''
            then FormatType_int64 P (long_double_to_int64 P value) (formatSpecifier fragment) output
            else FormatType P (Floating value) (formatSpecifier fragment) output) of
        Inl e \<Rightarrow> Inl e
      | Inr output' \<Rightarrow> Inr (True, fragment, output'))"

text \<open>
  \<^verbatim>\<open>ConvertAndFormatType(int64_t, ...)\<close>. \<^verbatim>\<open>std::sqrt\<close> of an integer is a \<^verbatim>\<open>double\<close>, so
  the call for \<^verbatim>\<open>sqrt\<close> resolves to the floating-point overload. The argument for
  \<^verbatim>\<open>sign\<close> is a \<^verbatim>\<open>long long\<close>: where \<^verbatim>\<open>int64_t\<close> is \<^verbatim>\<open>long\<close>, no overload takes it
  without a conversion and the call resolves to the unconstrained template, which
  writes nothing and returns \<^verbatim>\<open>false\<close>.
\<close>

function ConvertAndFormatType_int64 ::
  "platform \<Rightarrow> int \<Rightarrow> FormatFragment \<Rightarrow> string
    \<Rightarrow> error + (bool \<times> FormatFragment \<times> string)" where
  "ConvertAndFormatType_int64 P value fragment output =
     (let switch = (\<lambda>fragment'.
            case (if explicitConversion fragment' = CHR ''s'' \<or> explicitConversion fragment' = CHR ''r''
                  then FormatType_cstr (to_string_int64 value) (formatSpecifier fragment') output
                  else if explicitConversion fragment' = CHR ''d''
                  then FormatType P (Floating (LD_of_int64 value)) (formatSpecifier fragment') output
                  else FormatType_int64 P value (formatSpecifier fragment') output) of
              Inl e \<Rightarrow> Inl e
            | Inr output' \<Rightarrow> Inr (True, fragment', output'))
      in case selectors fragment of
           [] \<Rightarrow> switch fragment
         | selector # queue \<Rightarrow>
             (let fragment' = fragment\<lparr>selectors := queue\<rparr>
              in if selector = ''abs''
                 then ConvertAndFormatType_int64 P (int64 \<bar>value\<bar>) fragment' output
                 else if selector = ''sign''
                 then (if int64_t_is_long_long P
                       then ConvertAndFormatType_int64 P (if value < 0 then - 1 else 1) fragment' output
                       else Inr (False, fragment', output))
                 else if selector = ''inc''
                 then ConvertAndFormatType_int64 P (int64 (value + 1)) fragment' output
                 else if selector = ''dec''
                 then ConvertAndFormatType_int64 P (int64 (value - 1)) fragment' output
                 else if selector = ''sqrt''
                 then ConvertAndFormatType_long_double P (LD_sqrt value) fragment' output
                 else switch fragment'))"
  by pat_completeness auto
termination
  by (relation "measure (\<lambda>(P, value, fragment, output). length (selectors fragment))") auto

declare ConvertAndFormatType_int64.simps [simp del]

text \<open>
  \<^verbatim>\<open>ConvertAndFormatType(bool, ...)\<close>: an empty specifier overrides the conversion with
  \<^verbatim>\<open>s\<close>.
\<close>

definition ConvertAndFormatType_bool ::
  "platform \<Rightarrow> bool \<Rightarrow> FormatFragment \<Rightarrow> string
    \<Rightarrow> error + (bool \<times> FormatFragment \<times> string)" where
  "ConvertAndFormatType_bool P value fragment output =
     (let convertToType = (if formatSpecifier fragment = [] then CHR ''s''
                           else explicitConversion fragment)
      in case (if convertToType = CHR ''s'' \<or> convertToType = CHR ''r''
               then FormatType_cstr (if value then ''True'' else ''False'')
                      (formatSpecifier fragment) output
               else if convertToType = CHR ''i''
               then FormatType_int64 P (if value then 1 else 0) (formatSpecifier fragment) output
               else if convertToType = CHR ''d''
               then FormatType P (Floating (LD_of_int64 (if value then 1 else 0)))
                      (formatSpecifier fragment) output
               else FormatType P (Boolean value) (formatSpecifier fragment) output) of
           Inl e \<Rightarrow> Inl e
         | Inr output' \<Rightarrow> Inr (True, fragment, output'))"

definition ConvertAndFormatType_cstr ::
  "platform \<Rightarrow> string \<Rightarrow> FormatFragment \<Rightarrow> string
    \<Rightarrow> error + (bool \<times> FormatFragment \<times> string)" where
  "ConvertAndFormatType_cstr P value fragment output =
     (case (if explicitConversion fragment = CHR ''i''
            then FormatType_int64 P (strtoll value) (formatSpecifier fragment) output
            else if explicitConversion fragment = CHR ''d''
            then FormatType P (Floating (LD_strtold value)) (formatSpecifier fragment) output
            else FormatType_cstr value (formatSpecifier fragment) output) of
        Inl e \<Rightarrow> Inl e
      | Inr output' \<Rightarrow> Inr (True, fragment, output'))"

lemma map_of_size_arg:
  "map_of container selector = Some v \<Longrightarrow> size v < size (TextMap container)"
  by (induction container) (auto split: if_splits)

text \<open>
  \<^verbatim>\<open>ConvertAndFormatType\<close>, by overload. The template for maps with textual keys pops
  the next selector and, when it is a key, descends into the value; its result is
  \<^verbatim>\<open>true\<close> whatever the inner call returned. Every other type goes to the
  unconstrained template, which returns \<^verbatim>\<open>false\<close>.
\<close>

function ConvertAndFormatType ::
  "platform \<Rightarrow> arg \<Rightarrow> FormatFragment \<Rightarrow> string
    \<Rightarrow> error + (bool \<times> FormatFragment \<times> string)" where
  "ConvertAndFormatType P (Integral v) fragment output =
     ConvertAndFormatType_int64 P v fragment output"
| "ConvertAndFormatType P (Floating v) fragment output =
     ConvertAndFormatType_long_double P v fragment output"
| "ConvertAndFormatType P (Boolean b) fragment output =
     ConvertAndFormatType_bool P b fragment output"
| "ConvertAndFormatType P (Textual s) fragment output =
     ConvertAndFormatType_cstr P s fragment output"
| "ConvertAndFormatType P (TextMap container) fragment output =
     (let whole = (\<lambda>fragment'.
            case FormatType P (TextMap container) (formatSpecifier fragment') output of
              Inl e \<Rightarrow> Inl e
            | Inr output' \<Rightarrow> Inr (True, fragment', output'))
      in case selectors fragment of
           [] \<Rightarrow> whole fragment
         | selector # queue \<Rightarrow>
             (case map_of container selector of
                None \<Rightarrow> whole (fragment\<lparr>selectors := queue\<rparr>)
              | Some v \<Rightarrow>
                  (case ConvertAndFormatType P v (fragment\<lparr>selectors := queue\<rparr>) output of
                     Inl e \<Rightarrow> Inl e
                   | Inr (isHandled, fragment', output') \<Rightarrow> Inr (True, fragment', output'))))"
| "ConvertAndFormatType P (Sequence container) fragment output = Inr (False, fragment, output)"
| "ConvertAndFormatType P (Pair a b) fragment output = Inr (False, fragment, output)"
  by pat_completeness auto
termination
  by (relation "measure (\<lambda>(P, a, fragment, output). size a)") (auto dest: map_of_size_arg)

section \<open>Parsing a field, binding arguments, assembling the output\<close>

text \<open>
  The macro \<^verbatim>\<open>FORMAT_DISABLE_THROW_OUT_OF_RANGE\<close> is a parameter of \<open>OutputFragments\<close> and
  \<open>Format\<close>: \<open>True\<close> when it is defined (by default it is not). When it is defined the
  member \<^verbatim>\<open>handled\<close> does not exist in the source; here it is kept in both
  configurations, and only the test in \<open>OutputFragments\<close>, which exists when the macro
  is not defined, reads it.
\<close>

definition InitializeFormatFragment :: "FormatFragment \<Rightarrow> int \<Rightarrow> FormatFragment" where
  "InitializeFormatFragment fragment index' =
     fragment\<lparr>index := index', explicitConversion := NUL, handled := (index' < 0)\<rparr>"

fun ParseFormatSpecifier ::
  "string \<Rightarrow> FormatFragment \<Rightarrow> nat \<Rightarrow> error + (FormatFragment \<times> string \<times> nat)" where
  "ParseFormatSpecifier [] fragment pos = Inr (fragment, [], pos)"
| "ParseFormatSpecifier (c # cs) fragment pos =
     (if c = FORMAT_SPECIFIER then
        (case ReadFormatSpecifier cs (pos + 1) [] of
           Inl e \<Rightarrow> Inl e
         | Inr (buffer, rest, pos') \<Rightarrow> Inr (fragment\<lparr>formatSpecifier := buffer\<rparr>, rest, pos'))
      else Inr (fragment, c # cs, pos))"

text \<open>
  \<^verbatim>\<open>TranslateEnvironmentFragment\<close>: a null pointer from \<^verbatim>\<open>std::getenv\<close> becomes the empty
  string, which is then converted and formatted as a \<^verbatim>\<open>std::string\<close>.
\<close>

definition TranslateEnvironmentFragment ::
  "platform \<Rightarrow> FormatFragment \<Rightarrow> error + FormatFragment" where
  "TranslateEnvironmentFragment P fragment =
     (if index fragment = FORMAT_ENVIRONMENT_INDEX then
        (let envValue = (case getenv P (text' fragment) of None \<Rightarrow> [] | Some envValuePtr \<Rightarrow> envValuePtr)
         in case ConvertAndFormatType P (Textual envValue) fragment [] of
              Inl e \<Rightarrow> Inl e
            | Inr (isHandled, fragment', buffer) \<Rightarrow>
                (case (if \<not> isHandled
                       then FormatType P (Textual envValue) (formatSpecifier fragment') buffer
                       else Inr buffer) of
                   Inl e \<Rightarrow> Inl e
                 | Inr buffer' \<Rightarrow> Inr (fragment'\<lparr>text' := buffer'\<rparr>)))
      else Inr fragment)"

text \<open>
  \<^verbatim>\<open>ParseFormatParameter\<close>, entered at the opening brace. The result is the vector of
  fragments, the cursor and \<^verbatim>\<open>nextParameterIndex\<close>.
\<close>

definition ParseFormatParameter ::
  "platform \<Rightarrow> string \<Rightarrow> FormatFragment list \<Rightarrow> nat \<Rightarrow> int
    \<Rightarrow> error + (FormatFragment list \<times> string \<times> nat \<times> int)" where
  "ParseFormatParameter P formatParameter fragments pos nextParameterIndex =
     (case formatParameter of
        [] \<Rightarrow> Inl assertion_failure
      | c # cs \<Rightarrow>
        if c \<noteq> FORMAT_START then Inl assertion_failure
        else
        (case SkipWhitespace cs (pos + 1) of (cs1, pos1) \<Rightarrow>
        (case (if take 1 cs1 = [FORMAT_ENVIRONMENT] then
                 (case ReadEnvironmentVariableName cs1 [] pos1 of
                    Inl e \<Rightarrow> Inl e
                  | Inr (buffer, cs2, pos2) \<Rightarrow>
                      Inr (FormatFragment_default\<lparr>text' := buffer\<rparr>, FORMAT_ENVIRONMENT_INDEX,
                           nextParameterIndex, cs2, pos2))
               else
                 (case ParseIntegerNumber cs1 pos1 False nextParameterIndex of
                    Inl e \<Rightarrow> Inl e
                  | Inr (parameterIndex, cs2, pos2) \<Rightarrow>
                      Inr (FormatFragment_default, parameterIndex,
                           int32 (parameterIndex + 1), cs2, pos2))) of
           Inl e \<Rightarrow> Inl e
         | Inr (fragment0, parameterIndex, nextParameterIndex', cs2, pos2) \<Rightarrow>
        (case ReadSelectors cs2 (InitializeFormatFragment fragment0 parameterIndex) pos2 of
           Inl e \<Rightarrow> Inl e
         | Inr (fragment1, cs3, pos3) \<Rightarrow>
        (case ReadExplicitTypeConversion cs3 fragment1 pos3 of
           Inl e \<Rightarrow> Inl e
         | Inr (fragment2, cs4, pos4) \<Rightarrow>
        (case ParseFormatSpecifier cs4 fragment2 pos4 of
           Inl e \<Rightarrow> Inl e
         | Inr (fragment3, cs5, pos5) \<Rightarrow>
        (case TranslateEnvironmentFragment P fragment3 of
           Inl e \<Rightarrow> Inl e
         | Inr fragment4 \<Rightarrow>
        (case SkipWhitespace cs5 pos5 of (cs6, pos6) \<Rightarrow>
        (case cs6 of
           [] \<Rightarrow> Inl (IllegalFormatStringException pos6)
         | c6 # cs7 \<Rightarrow>
             if c6 \<noteq> FORMAT_END then Inl (IllegalFormatStringException pos6)
             else if cs7 = [] then Inr (fragments @ [fragment4], cs7, pos6 + 1, nextParameterIndex')
             else
               (case GetPlainTextFragment cs7 [] (pos6 + 1) of
                  Inl e \<Rightarrow> Inl e
                | Inr (buffer, cs8, pos8) \<Rightarrow>
                    Inr (if buffer \<noteq> []
                         then fragments @ [fragment4,
                                (InitializeFormatFragment FormatFragment_default FORMAT_TEXT_INDEX)
                                  \<lparr>text' := buffer\<rparr>]
                         else fragments @ [fragment4],
                         cs8, pos8, nextParameterIndex')))))))))))"

subsection \<open>Every parser returns a suffix of its input\<close>

lemma SkipWhitespace_length:
  "SkipWhitespace cs pos = (rest, pos') \<Longrightarrow> length rest \<le> length cs"
proof (induction cs pos rule: SkipWhitespace.induct)
  case (1 pos)
  then show ?case by simp
next
  case (2 c cs pos)
  then show ?case by (auto split: if_splits simp: le_SucI)
qed

lemma ParseIntegerNumber_loop_length:
  "ParseIntegerNumber_loop a cs pos n s f g = Inr (n', s', g', rest, pos') \<Longrightarrow>
   length rest \<le> length cs"
proof (induction a cs pos n s f g rule: ParseIntegerNumber_loop.induct)
  case (1 a pos n s f g)
  then show ?case by simp
next
  case (2 a c cs pos n s f g)
  then show ?case by (auto split: if_splits simp: le_SucI Let_def)
qed

lemma ParseIntegerNumber_length:
  "ParseIntegerNumber cs pos a d = Inr (n, rest, pos') \<Longrightarrow> length rest \<le> length cs"
  unfolding ParseIntegerNumber_def
  by (auto split: sum.splits prod.splits if_splits simp: Let_def
           dest: ParseIntegerNumber_loop_length)

lemma ReadSelectors_length:
  "ReadSelectors cs fragment pos = Inr (fragment', rest, pos') \<Longrightarrow> length rest \<le> length cs"
proof (induction cs fragment pos rule: ReadSelectors.induct)
  case (1 fragment pos)
  then show ?case by simp
next
  case (2 selectorType cs fragment pos)
  show ?case
  proof (cases "selectorType = FORMAT_SELECTOR_OBJ \<or> selectorType = FORMAT_SELECTOR_ARRAY_BEGIN")
    case False
    with "2.prems" show ?thesis by auto
  next
    case True
    with "2.prems" obtain f1 r1 p1 where
      rs: "ReadSelector (selectorType # cs) fragment pos = Inr (f1, r1, p1)"
      and rest: "ReadSelectors r1 f1 p1 = Inr (fragment', rest, pos')"
      by (auto split: sum.splits)
    from "2.IH" [OF True rs refl refl rest] have "length rest \<le> length r1" .
    moreover from ReadSelector_length [OF rs True] have "length r1 \<le> length cs" .
    ultimately show ?thesis by simp
  qed
qed

lemma ReadExplicitTypeConversion_length:
  "ReadExplicitTypeConversion cs fragment pos = Inr (fragment', rest, pos') \<Longrightarrow>
   length rest \<le> length cs"
  by (cases cs) (auto split: if_splits list.splits)

lemma ReadFormatSpecifier_length:
  "ReadFormatSpecifier cs pos ostr = Inr (ostr', rest, pos') \<Longrightarrow> length rest \<le> length cs"
proof (induction cs pos ostr rule: ReadFormatSpecifier.induct)
  case (1 pos ostr)
  then show ?case by simp
next
  case (2 c cs pos ostr)
  then show ?case by (auto split: if_splits list.splits simp: le_SucI)
qed

lemma ParseFormatSpecifier_length:
  "ParseFormatSpecifier cs fragment pos = Inr (fragment', rest, pos') \<Longrightarrow>
   length rest \<le> length cs"
  by (cases cs) (auto split: if_splits sum.splits simp: le_SucI dest: ReadFormatSpecifier_length)

lemma GetPlainTextFragment_loop_length:
  "GetPlainTextFragment_loop expect cs ostr pos = Inr (ostr', rest, pos') \<Longrightarrow>
   length rest \<le> length cs"
proof (induction expect cs ostr pos rule: GetPlainTextFragment_loop.induct)
  case (1 expect ostr pos)
  then show ?case by simp
next
  case (2 expect c cs ostr pos)
  then show ?case by (auto split: if_splits list.splits simp: le_SucI)
qed

lemma ParseFormatParameter_length:
  assumes "ParseFormatParameter P cs fragments pos n = Inr (fragments', rest, pos', n')"
  shows "length rest < length cs"
proof -
  from assms obtain c cs0 where cs: "cs = c # cs0"
    by (cases cs) (auto simp: ParseFormatParameter_def)
  obtain cs1 pos1 where sw: "SkipWhitespace cs0 (pos + 1) = (cs1, pos1)"
    by (cases "SkipWhitespace cs0 (pos + 1)") auto
  from assms cs sw obtain f0 i0 n0 cs2 pos2 f1 cs3 pos3 f2 cs4 pos4 f3 cs5 pos5 where
    idx: "(if take 1 cs1 = [FORMAT_ENVIRONMENT]
           then (case ReadEnvironmentVariableName cs1 [] pos1 of
                   Inl e \<Rightarrow> Inl e
                 | Inr (buffer, cs2, pos2) \<Rightarrow>
                     Inr (FormatFragment_default\<lparr>text' := buffer\<rparr>, FORMAT_ENVIRONMENT_INDEX,
                          n, cs2, pos2))
           else (case ParseIntegerNumber cs1 pos1 False n of
                   Inl e \<Rightarrow> Inl e
                 | Inr (parameterIndex, cs2, pos2) \<Rightarrow>
                     Inr (FormatFragment_default, parameterIndex,
                          int32 (parameterIndex + 1), cs2, pos2)))
          = Inr (f0, i0, n0, cs2, pos2)"
    and sel: "ReadSelectors cs2 (InitializeFormatFragment f0 i0) pos2 = Inr (f1, cs3, pos3)"
    and conv: "ReadExplicitTypeConversion cs3 f1 pos3 = Inr (f2, cs4, pos4)"
    and spec: "ParseFormatSpecifier cs4 f2 pos4 = Inr (f3, cs5, pos5)"
    by (auto simp: ParseFormatParameter_def split: if_splits sum.splits prod.splits)
  obtain cs6 pos6 where sw2: "SkipWhitespace cs5 pos5 = (cs6, pos6)"
    by (cases "SkipWhitespace cs5 pos5") auto
  from assms cs sw idx sel conv spec sw2 have tail: "length rest < length cs6"
    by (auto simp: ParseFormatParameter_def GetPlainTextFragment_def
             split: if_splits sum.splits prod.splits list.splits
             dest!: GetPlainTextFragment_loop_length)
  have "length cs2 \<le> length cs1"
  proof (cases "take 1 cs1 = [FORMAT_ENVIRONMENT]")
    case True
    with idx show ?thesis
      by (cases cs1) (auto split: if_splits prod.splits simp: le_SucI dest: ReadIdentifier_length)
  next
    case False
    with idx show ?thesis
      by (auto split: sum.splits dest: ParseIntegerNumber_length)
  qed
  moreover note SkipWhitespace_length [OF sw] ReadSelectors_length [OF sel]
    ReadExplicitTypeConversion_length [OF conv] ParseFormatSpecifier_length [OF spec]
    SkipWhitespace_length [OF sw2] tail
  ultimately show ?thesis using cs by simp
qed

subsection \<open>The template\<close>

text \<open>
  \<^verbatim>\<open>ParseFormatStr\<close>: the leading text goes to the output stream, then one
  \<^verbatim>\<open>ParseFormatParameter\<close> per round of the loop until the terminator.
\<close>

function ParseFormatStr_loop ::
  "platform \<Rightarrow> string \<Rightarrow> FormatFragment list \<Rightarrow> nat \<Rightarrow> int \<Rightarrow> error + FormatFragment list" where
  "ParseFormatStr_loop P formatStr fragments pos nextParameterIndex =
     (if formatStr = [] then Inr fragments
      else
        (case ParseFormatParameter P formatStr fragments pos nextParameterIndex of
           Inl e \<Rightarrow> Inl e
         | Inr (fragments', rest, pos', nextParameterIndex') \<Rightarrow>
             ParseFormatStr_loop P rest fragments' pos' nextParameterIndex'))"
  by pat_completeness auto
termination
  by (relation "measure (\<lambda>(P, formatStr, fragments, pos, n). length formatStr)")
     (auto dest: ParseFormatParameter_length)

declare ParseFormatStr_loop.simps [simp del]

definition ParseFormatStr ::
  "platform \<Rightarrow> string \<Rightarrow> string \<Rightarrow> FormatFragment list
    \<Rightarrow> error + (string \<times> FormatFragment list)" where
  "ParseFormatStr P formatStr ostr fragments =
     (case GetPlainTextFragment formatStr ostr 0 of
        Inl e \<Rightarrow> Inl e
      | Inr (ostr', rest, pos) \<Rightarrow>
          (case ParseFormatStr_loop P rest fragments pos 0 of
             Inl e \<Rightarrow> Inl e
           | Inr fragments' \<Rightarrow> Inr (ostr', fragments')))"

subsection \<open>Binding\<close>

text \<open>
  \<^verbatim>\<open>FormatParameter<ArgumentIndex>\<close>: the loop over the fragments, rendering the argument
  into each fragment of that index.
\<close>

fun FormatParameter ::
  "platform \<Rightarrow> int \<Rightarrow> FormatFragment list \<Rightarrow> arg \<Rightarrow> error + FormatFragment list" where
  "FormatParameter P ArgumentIndex [] a = Inr []"
| "FormatParameter P ArgumentIndex (fragment # fragments) a =
     (case (if index fragment = ArgumentIndex then
              (case ConvertAndFormatType P a fragment [] of
                 Inl e \<Rightarrow> Inl e
               | Inr (isHandled, fragment', buffer) \<Rightarrow>
                   (case (if \<not> isHandled
                          then FormatType P a (formatSpecifier fragment') buffer
                          else Inr buffer) of
                      Inl e \<Rightarrow> Inl e
                    | Inr buffer' \<Rightarrow>
                        Inr (fragment'\<lparr>text' := buffer', handled := True\<rparr>)))
            else Inr fragment) of
        Inl e \<Rightarrow> Inl e
      | Inr fragment'' \<Rightarrow>
          (case FormatParameter P ArgumentIndex fragments a of
             Inl e \<Rightarrow> Inl e
           | Inr fragments' \<Rightarrow> Inr (fragment'' # fragments')))"

fun FormatParameters ::
  "platform \<Rightarrow> int \<Rightarrow> FormatFragment list \<Rightarrow> arg list \<Rightarrow> error + FormatFragment list" where
  "FormatParameters P ArgumentIndex fragments [] = Inr fragments"
| "FormatParameters P ArgumentIndex fragments (a # args) =
     (case FormatParameter P ArgumentIndex fragments a of
        Inl e \<Rightarrow> Inl e
      | Inr fragments' \<Rightarrow> FormatParameters P (ArgumentIndex + 1) fragments' args)"

subsection \<open>Assembling\<close>

fun OutputFragments :: "bool \<Rightarrow> FormatFragment list \<Rightarrow> string \<Rightarrow> error + string" where
  "OutputFragments FORMAT_DISABLE_THROW_OUT_OF_RANGE [] ostr = Inr ostr"
| "OutputFragments FORMAT_DISABLE_THROW_OUT_OF_RANGE (fragment # fragments) ostr =
     (if \<not> FORMAT_DISABLE_THROW_OUT_OF_RANGE \<and> \<not> handled fragment
      then Inl (out_of_range (index fragment))
      else OutputFragments FORMAT_DISABLE_THROW_OUT_OF_RANGE fragments (ostr @ text' fragment))"

text \<open>
  \<^verbatim>\<open>Format(const char* formatStr, Args&&... args)\<close>; with no arguments it is also the
  overload \<^verbatim>\<open>Format(const char* formatStr)\<close>.
\<close>

definition Format :: "platform \<Rightarrow> bool \<Rightarrow> string \<Rightarrow> arg list \<Rightarrow> error + string" where
  "Format P FORMAT_DISABLE_THROW_OUT_OF_RANGE formatStr args =
     (case ParseFormatStr P formatStr [] [] of
        Inl e \<Rightarrow> Inl e
      | Inr (ostr, fragments) \<Rightarrow>
          (case (if fragments \<noteq> [] then FormatParameters P 0 fragments args else Inr fragments) of
             Inl e \<Rightarrow> Inl e
           | Inr fragments' \<Rightarrow> OutputFragments FORMAT_DISABLE_THROW_OUT_OF_RANGE fragments' ostr))"

section \<open>Notions used in the statements\<close>

text \<open>
  A platform for closed examples: an empty environment, \<^verbatim>\<open>int64_t\<close> as \<^verbatim>\<open>long\<close>, a user
  locale that does not group and has the point as its decimal point. Every
  \<^verbatim>\<open>long double\<close> has the value zero on it, and its other floating-point operations
  write nothing; an example on a floating-point value replaces \<open>long_double_value\<close>.
\<close>

definition reference_platform :: platform where
  "reference_platform =
     \<lparr>getenv = (\<lambda>name. None), int64_t_is_long_long = False,
      user_locale_grouping = (\<lambda>digits. digits),
      user_locale_decimal_point = CHR ''.'',
      long_double_value = (\<lambda>value. Finite False 0 0),
      long_double_times_100 = (\<lambda>value. value),
      insert_FormatDynamicDecimal = (\<lambda>st value minPrecision maxPrecision scientificCeil. []),
      insert_not_finite = (\<lambda>st value. []),
      to_string_long_double = (\<lambda>value. []),
      long_double_to_int64 = (\<lambda>value. 0)\<rparr>"

text \<open>
  Escape un-doubling as the specification words it: reading from the left, each
  \<^verbatim>\<open>{{\<close> becomes \<^verbatim>\<open>{\<close> and each \<^verbatim>\<open>}}\<close> becomes \<^verbatim>\<open>}\<close>; every other character is copied.
  \<open>no_unescaped_open\<close> says that the template has no field: every opening brace is one
  of a doubled pair. \<open>every_brace_doubled\<close> says the same of both braces.
\<close>

fun undouble :: "string \<Rightarrow> string" where
  "undouble (a # b # cs) =
     (if (a = FORMAT_START \<or> a = FORMAT_END) \<and> a = b then a # undouble cs
      else a # undouble (b # cs))"
| "undouble cs = cs"

fun no_unescaped_open :: "string \<Rightarrow> bool" where
  "no_unescaped_open (a # b # cs) =
     (if a = FORMAT_START then b = FORMAT_START \<and> no_unescaped_open cs
      else no_unescaped_open (b # cs))"
| "no_unescaped_open [a] = (a \<noteq> FORMAT_START)"
| "no_unescaped_open [] = True"

fun every_brace_doubled :: "string \<Rightarrow> bool" where
  "every_brace_doubled (a # b # cs) =
     (if a = FORMAT_START \<or> a = FORMAT_END then a = b \<and> every_brace_doubled cs
      else every_brace_doubled (b # cs))"
| "every_brace_doubled [a] = (a \<noteq> FORMAT_START \<and> a \<noteq> FORMAT_END)"
| "every_brace_doubled [] = True"

text \<open>
  The text of a field after its opening brace and the white space: it is an environment
  reference when it starts with \<^verbatim>\<open>$\<close>, and it carries an explicitly written index when it
  starts with a digit.
\<close>

definition environment_reference :: "string \<Rightarrow> bool" where
  "environment_reference field = (take 1 field = [FORMAT_ENVIRONMENT])"

definition explicit_index :: "string \<Rightarrow> bool" where
  "explicit_index field = (case field of [] \<Rightarrow> False | c # cs \<Rightarrow> is_digit c)"

text \<open>
  \<open>bound_by i n f f'\<close>: what binding the arguments of the indices \<open>i, ..., i + n - 1\<close>
  makes of a fragment \<open>f\<close>. \<open>fresh f\<close>: the state of a fragment when the template has
  been parsed; only text and environment references are handled, and a field has no
  text yet.
\<close>

definition bound_by :: "int \<Rightarrow> nat \<Rightarrow> FormatFragment \<Rightarrow> FormatFragment \<Rightarrow> bool" where
  "bound_by i n f f' =
     (index f' = index f
      \<and> (if i \<le> index f \<and> index f < i + int n then handled f' else f' = f))"

definition fresh :: "FormatFragment \<Rightarrow> bool" where
  "fresh f = (handled f = (index f < 0) \<and> (0 \<le> index f \<longrightarrow> text' f = []))"

text \<open>
  A text can follow the identifier of a selector when it does not continue the
  identifier and does not start with a closing bracket.
\<close>

definition ends_identifier :: "string \<Rightarrow> bool" where
  "ends_identifier rest =
     (case rest of
        [] \<Rightarrow> True
      | c # cs \<Rightarrow> \<not> is_identifier_char c \<and> c \<noteq> FORMAT_SELECTOR_ARRAY_END)"

section \<open>Lemmas\<close>

lemmas scanner_defs =
  GetPlainTextFragment_def ParseIntegerNumber_def is_digit_def digit_value_def int32_def
  is_identifier_char_def FormatFragment_default_def InitializeFormatFragment_def

lemmas text_defs =
  ConvertToBasicFormatSpecifiers_def ReadWidthSpecifier_def is_align_token_def is_type_token_def
  InitializeFormatSpecifier_def stringstream_init_def
  PreprocessStreamForString_def PostprocessStreamForString_def insert_string_def padding_def
  FormatType_cstr_def ConvertAndFormatType_cstr_def

lemmas integer_defs =
  FormatType_int64_def PreprocessStreamForInteger_def PostprocessStreamForInteger_def
  insert_int64_def grouping_def int_div_def to_string_int64_def int64_def
  digits_of.simps group3.simps ConvertAndFormatType_int64.simps

lemmas format_defs =
  Format_def ParseFormatStr_def ParseFormatStr_loop.simps ParseFormatParameter_def
  TranslateEnvironmentFragment_def

subsection \<open>Literal text in which every brace is doubled\<close>

lemma GetPlainTextFragment_loop_doubled:
  "every_brace_doubled t \<Longrightarrow>
   GetPlainTextFragment_loop NUL t ostr pos = Inr (ostr @ undouble t, [], pos + length t)"
proof (induction t arbitrary: ostr pos rule: every_brace_doubled.induct)
  case (1 a b cs)
  then show ?case by (auto split: if_splits)
next
  case (2 a)
  then show ?case by simp
next
  case 3
  then show ?case by simp
qed

lemma no_unescaped_open_Cons:
  "a \<noteq> FORMAT_START \<Longrightarrow> no_unescaped_open (a # cs) = no_unescaped_open cs"
  by (cases cs) auto

subsection \<open>What the parsers of a field change in the fragment\<close>

lemma ReadSelector_fields:
  "ReadSelector cs f pos = Inr (f', rest, pos') \<Longrightarrow> \<exists>q. f' = f\<lparr>selectors := q\<rparr>"
proof (cases cs)
  case Nil
  assume "ReadSelector cs f pos = Inr (f', rest, pos')"
  with Nil have "f' = f\<lparr>selectors := selectors f\<rparr>" by simp
  then show ?thesis ..
next
  case (Cons c cs0)
  assume a: "ReadSelector cs f pos = Inr (f', rest, pos')"
  show ?thesis
  proof (cases "c = FORMAT_SELECTOR_OBJ \<or> c = FORMAT_SELECTOR_ARRAY_BEGIN")
    case True
    with a Cons have "f' = f\<lparr>selectors := selectors f @ [fst (ReadIdentifier cs0 [] (pos + 1))]\<rparr>"
      by (auto split: prod.splits list.splits if_splits)
    then show ?thesis ..
  next
    case False
    with a Cons have "f' = f\<lparr>selectors := selectors f\<rparr>" by auto
    then show ?thesis ..
  qed
qed

lemma ReadSelectors_fields:
  "ReadSelectors cs f pos = Inr (f', rest, pos') \<Longrightarrow> \<exists>q. f' = f\<lparr>selectors := q\<rparr>"
proof (induction cs f pos rule: ReadSelectors.induct)
  case (1 f pos)
  then have "f' = f\<lparr>selectors := selectors f\<rparr>" by simp
  then show ?case ..
next
  case (2 c cs f pos)
  show ?case
  proof (cases "c = FORMAT_SELECTOR_OBJ \<or> c = FORMAT_SELECTOR_ARRAY_BEGIN")
    case False
    with "2.prems" have "f' = f\<lparr>selectors := selectors f\<rparr>" by auto
    then show ?thesis ..
  next
    case True
    with "2.prems" obtain f1 r1 p1 where
      rs: "ReadSelector (c # cs) f pos = Inr (f1, r1, p1)"
      and more: "ReadSelectors r1 f1 p1 = Inr (f', rest, pos')"
      by (auto split: sum.splits)
    from ReadSelector_fields [OF rs] obtain q1 where f1: "f1 = f\<lparr>selectors := q1\<rparr>" ..
    from "2.IH" [OF True rs refl refl more] obtain q where "f' = f1\<lparr>selectors := q\<rparr>" ..
    with f1 have "f' = f\<lparr>selectors := q\<rparr>" by simp
    then show ?thesis ..
  qed
qed

lemma ReadExplicitTypeConversion_fields:
  "ReadExplicitTypeConversion cs f pos = Inr (f', rest, pos') \<Longrightarrow>
   \<exists>c. f' = f\<lparr>explicitConversion := c\<rparr>"
proof (cases cs)
  case Nil
  assume "ReadExplicitTypeConversion cs f pos = Inr (f', rest, pos')"
  with Nil have "f' = f\<lparr>explicitConversion := explicitConversion f\<rparr>" by simp
  then show ?thesis ..
next
  case (Cons c cs0)
  assume a: "ReadExplicitTypeConversion cs f pos = Inr (f', rest, pos')"
  show ?thesis
  proof (cases "c = FORMAT_EXPLICIT_TYPE")
    case True
    with a Cons obtain t ts where "cs0 = t # ts" and "f' = f\<lparr>explicitConversion := t\<rparr>"
      by (cases cs0) (auto split: if_splits)
    then show ?thesis by blast
  next
    case False
    with a Cons have "f' = f\<lparr>explicitConversion := explicitConversion f\<rparr>" by simp
    then show ?thesis ..
  qed
qed

lemma ParseFormatSpecifier_fields:
  "ParseFormatSpecifier cs f pos = Inr (f', rest, pos') \<Longrightarrow>
   \<exists>s. f' = f\<lparr>formatSpecifier := s\<rparr>"
proof (cases cs)
  case Nil
  assume "ParseFormatSpecifier cs f pos = Inr (f', rest, pos')"
  with Nil have "f' = f\<lparr>formatSpecifier := formatSpecifier f\<rparr>" by simp
  then show ?thesis ..
next
  case (Cons c cs0)
  assume a: "ParseFormatSpecifier cs f pos = Inr (f', rest, pos')"
  show ?thesis
  proof (cases "c = FORMAT_SPECIFIER")
    case True
    with a Cons obtain s where "f' = f\<lparr>formatSpecifier := s\<rparr>"
      by (auto split: sum.splits)
    then show ?thesis ..
  next
    case False
    with a Cons have "f' = f\<lparr>formatSpecifier := formatSpecifier f\<rparr>" by simp
    then show ?thesis ..
  qed
qed

lemma TranslateEnvironmentFragment_fields:
  assumes "TranslateEnvironmentFragment P f = Inr f'"
  shows "index f' = index f \<and> handled f' = handled f
         \<and> (index f \<noteq> FORMAT_ENVIRONMENT_INDEX \<longrightarrow> f' = f)"
  using assms
  by (auto simp: TranslateEnvironmentFragment_def ConvertAndFormatType_cstr_def Let_def
           split: if_splits sum.splits)

subsection \<open>The index of a field\<close>

lemma ParseIntegerNumber_loop_foundAny:
  "ParseIntegerNumber_loop a cs pos p s f True = Inr (p', s', g', rest, pos') \<Longrightarrow> g'"
proof (induction a cs pos p s f "True" rule: ParseIntegerNumber_loop.induct)
  case (1 a pos p s f)
  then show ?case by simp
next
  case (2 a c cs pos p s f)
  then show ?case by (auto split: if_splits simp: Let_def)
qed

lemma ParseIntegerNumber_explicit:
  assumes "is_digit c"
  shows "ParseIntegerNumber (c # cs) pos False d = ParseIntegerNumber (c # cs) pos False d'"
proof -
  from assms have minus: "c \<noteq> CHR ''-''" by (auto simp: is_digit_def)
  show ?thesis
  proof (cases "ParseIntegerNumber_loop False (c # cs) pos 0 1 True False")
    case (Inl e)
    then show ?thesis by (simp add: ParseIntegerNumber_def)
  next
    case (Inr r)
    obtain p' s' g' rest pos' where r: "r = (p', s', g', rest, pos')" by (cases r) auto
    from Inr r assms minus have "g'"
      by (auto simp: Let_def split: if_splits dest: ParseIntegerNumber_loop_foundAny)
    with Inr r show ?thesis by (simp add: ParseIntegerNumber_def)
  qed
qed

lemma ParseIntegerNumber_implicit:
  assumes "\<not> explicit_index field"
    and "ParseIntegerNumber field pos False d = Inr (i, rest, pos')"
  shows "i = d"
proof (cases field)
  case Nil
  with assms show ?thesis by (simp add: ParseIntegerNumber_def)
next
  case (Cons c cs)
  with assms have "\<not> is_digit c" by (simp add: explicit_index_def)
  with assms Cons show ?thesis
    by (auto simp: ParseIntegerNumber_def Let_def split: if_splits)
qed

lemma ParseFormatParameter_field:
  assumes parse: "ParseFormatParameter P (c # cs) fragments pos n = Inr (fragments', rest, pos', n')"
    and field: "SkipWhitespace cs (pos + 1) = (field, pos1)"
  shows "\<exists>f tail.
           fragments' = fragments @ f # tail
         \<and> (\<forall>g \<in> set tail. index g = FORMAT_TEXT_INDEX \<and> handled g)
         \<and> handled f = (index f < 0)
         \<and> (index f \<noteq> FORMAT_ENVIRONMENT_INDEX \<longrightarrow> text' f = [])
         \<and> (if environment_reference field then index f = FORMAT_ENVIRONMENT_INDEX \<and> n' = n
             else (\<exists>cs2 pos2. ParseIntegerNumber field pos1 False n = Inr (index f, cs2, pos2))
                  \<and> n' = int32 (index f + 1))"
proof -
  from parse field obtain f0 i0 n0 cs2 pos2 f1 cs3 pos3 f2 cs4 pos4 f3 cs5 pos5 f4 where
    idx: "(if take 1 field = [FORMAT_ENVIRONMENT]
           then (case ReadEnvironmentVariableName field [] pos1 of
                   Inl e \<Rightarrow> Inl e
                 | Inr (buffer, cs2, pos2) \<Rightarrow>
                     Inr (FormatFragment_default\<lparr>text' := buffer\<rparr>, FORMAT_ENVIRONMENT_INDEX,
                          n, cs2, pos2))
           else (case ParseIntegerNumber field pos1 False n of
                   Inl e \<Rightarrow> Inl e
                 | Inr (parameterIndex, cs2, pos2) \<Rightarrow>
                     Inr (FormatFragment_default, parameterIndex,
                          int32 (parameterIndex + 1), cs2, pos2)))
          = Inr (f0, i0, n0, cs2, pos2)"
    and sel: "ReadSelectors cs2 (InitializeFormatFragment f0 i0) pos2 = Inr (f1, cs3, pos3)"
    and conv: "ReadExplicitTypeConversion cs3 f1 pos3 = Inr (f2, cs4, pos4)"
    and spec: "ParseFormatSpecifier cs4 f2 pos4 = Inr (f3, cs5, pos5)"
    and env: "TranslateEnvironmentFragment P f3 = Inr f4"
    by (auto simp: ParseFormatParameter_def split: if_splits sum.splits prod.splits)
  obtain cs6 pos6 where sw2: "SkipWhitespace cs5 pos5 = (cs6, pos6)"
    by (cases "SkipWhitespace cs5 pos5") auto
  from parse field idx sel conv spec env sw2 obtain tail where
    frs: "fragments' = fragments @ f4 # tail"
    and tail: "\<forall>g \<in> set tail. index g = FORMAT_TEXT_INDEX \<and> handled g"
    and n': "n' = n0"
    by (auto simp: ParseFormatParameter_def InitializeFormatFragment_def
             split: if_splits sum.splits prod.splits list.splits)
  from ReadSelectors_fields [OF sel] ReadExplicitTypeConversion_fields [OF conv]
    ParseFormatSpecifier_fields [OF spec]
  obtain q t s where f3: "f3 = (InitializeFormatFragment f0 i0)
      \<lparr>selectors := q, explicitConversion := t, formatSpecifier := s\<rparr>"
    by auto
  from TranslateEnvironmentFragment_fields [OF env] f3
  have f4: "index f4 = i0" "handled f4 = (i0 < 0)"
    and f4': "i0 \<noteq> FORMAT_ENVIRONMENT_INDEX \<Longrightarrow> f4 = f3"
    by (auto simp: InitializeFormatFragment_def)
  have no_text: "index f4 \<noteq> FORMAT_ENVIRONMENT_INDEX \<longrightarrow> text' f4 = []"
  proof
    assume ne: "index f4 \<noteq> FORMAT_ENVIRONMENT_INDEX"
    with f4 have i0: "i0 \<noteq> FORMAT_ENVIRONMENT_INDEX" by simp
    with idx have "f0 = FormatFragment_default"
      by (auto split: if_splits sum.splits)
    with f4' [OF i0] f3 show "text' f4 = []"
      by (simp add: InitializeFormatFragment_def FormatFragment_default_def)
  qed
  have "if environment_reference field then index f4 = FORMAT_ENVIRONMENT_INDEX \<and> n' = n
        else (\<exists>cs2 pos2. ParseIntegerNumber field pos1 False n = Inr (index f4, cs2, pos2))
             \<and> n' = int32 (index f4 + 1)"
    using idx f4 n' by (auto simp: environment_reference_def split: if_splits sum.splits)
  with frs tail f4 no_text show ?thesis by blast
qed

subsection \<open>Binding changes the bound fragments only\<close>

lemma ConvertAndFormatType_int64_fields:
  "selectors f = q \<Longrightarrow> ConvertAndFormatType_int64 P v f out = Inr (b, f', out') \<Longrightarrow>
   \<exists>q'. f' = f\<lparr>selectors := q'\<rparr>"
proof (induction q arbitrary: f v)
  case Nil
  from Nil ConvertAndFormatType_int64.simps [of P v f out]
  have "f' = f\<lparr>selectors := selectors f\<rparr>"
    by (auto simp: Let_def split: sum.splits)
  then show ?case ..
next
  case (Cons s q)
  let ?f = "f\<lparr>selectors := q\<rparr>"
  have sel: "selectors ?f = q" by simp
  from Cons.prems ConvertAndFormatType_int64.simps [of P v f out]
  have "(\<exists>v'. ConvertAndFormatType_int64 P v' ?f out = Inr (b, f', out')) \<or> f' = ?f"
    by (auto simp: Let_def ConvertAndFormatType_long_double_def split: if_splits sum.splits)
  then show ?case
  proof
    assume "\<exists>v'. ConvertAndFormatType_int64 P v' ?f out = Inr (b, f', out')"
    then obtain v' where "ConvertAndFormatType_int64 P v' ?f out = Inr (b, f', out')" ..
    from Cons.IH [OF sel this] obtain q' where "f' = ?f\<lparr>selectors := q'\<rparr>" ..
    then have "f' = f\<lparr>selectors := q'\<rparr>" by simp
    then show ?thesis ..
  next
    assume "f' = ?f"
    then show ?thesis ..
  qed
qed

lemma ConvertAndFormatType_fields:
  "ConvertAndFormatType P a f out = Inr (b, f', out') \<Longrightarrow> \<exists>q'. f' = f\<lparr>selectors := q'\<rparr>"
proof (induction P a f out arbitrary: b f' out' rule: ConvertAndFormatType.induct)
  case (1 P v f out)
  then show ?case by (auto dest: ConvertAndFormatType_int64_fields [OF refl])
next
  case (2 P v f out)
  then have "f' = f\<lparr>selectors := selectors f\<rparr>"
    by (auto simp: ConvertAndFormatType_long_double_def split: sum.splits if_splits)
  then show ?case ..
next
  case (3 P v f out)
  then have "f' = f\<lparr>selectors := selectors f\<rparr>"
    by (auto simp: ConvertAndFormatType_bool_def Let_def split: sum.splits if_splits)
  then show ?case ..
next
  case (4 P v f out)
  then have "f' = f\<lparr>selectors := selectors f\<rparr>"
    by (auto simp: ConvertAndFormatType_cstr_def split: sum.splits if_splits)
  then show ?case ..
next
  case (5 P container f out)
  show ?case
  proof (cases "selectors f")
    case Nil
    with "5.prems" have "f' = f\<lparr>selectors := selectors f\<rparr>"
      by (auto simp: Let_def split: sum.splits)
    then show ?thesis ..
  next
    case (Cons s q)
    show ?thesis
    proof (cases "map_of container s")
      case None
      with "5.prems" Cons have "f' = f\<lparr>selectors := q\<rparr>"
        by (auto simp: Let_def split: sum.splits)
      then show ?thesis ..
    next
      case (Some v)
      with "5.prems" Cons obtain b1 where
        "ConvertAndFormatType P v (f\<lparr>selectors := q\<rparr>) out = Inr (b1, f', out')"
        by (auto simp: Let_def split: sum.splits)
      from "5.IH" [OF refl Cons Some this] obtain q' where
        "f' = f\<lparr>selectors := q\<rparr>\<lparr>selectors := q'\<rparr>" ..
      then have "f' = f\<lparr>selectors := q'\<rparr>" by simp
      then show ?thesis ..
    qed
  qed
next
  case (6 P container f out)
  then have "f' = f\<lparr>selectors := selectors f\<rparr>" by simp
  then show ?case ..
next
  case (7 P x y f out)
  then have "f' = f\<lparr>selectors := selectors f\<rparr>" by simp
  then show ?case ..
qed

lemma FormatParameter_bound_by:
  "FormatParameter P i fragments a = Inr fragments' \<Longrightarrow>
   list_all2 (bound_by i 1) fragments fragments'"
proof (induction fragments arbitrary: fragments')
  case Nil
  then show ?case by simp
next
  case (Cons f fragments)
  from Cons.prems obtain f1 rest where
    f1: "(if index f = i then
            (case ConvertAndFormatType P a f [] of
               Inl e \<Rightarrow> Inl e
             | Inr (isHandled, fragment', buffer) \<Rightarrow>
                 (case (if \<not> isHandled
                        then FormatType P a (formatSpecifier fragment') buffer
                        else Inr buffer) of
                    Inl e \<Rightarrow> Inl e
                  | Inr buffer' \<Rightarrow> Inr (fragment'\<lparr>text' := buffer', handled := True\<rparr>)))
          else Inr f) = Inr f1"
    and rest: "FormatParameter P i fragments a = Inr rest"
    and all: "fragments' = f1 # rest"
    by (auto split: sum.splits)
  have "bound_by i 1 f f1"
  proof (cases "index f = i")
    case False
    with f1 show ?thesis by (auto simp: bound_by_def)
  next
    case True
    with f1 obtain b f2 buffer buffer' where
      c: "ConvertAndFormatType P a f [] = Inr (b, f2, buffer)"
      and f1': "f1 = f2\<lparr>text' := buffer', handled := True\<rparr>"
      by (auto split: sum.splits prod.splits)
    from ConvertAndFormatType_fields [OF c] obtain q where "f2 = f\<lparr>selectors := q\<rparr>" ..
    with f1' True show ?thesis by (simp add: bound_by_def)
  qed
  with Cons.IH [OF rest] all show ?case by simp
qed

lemma bound_by_step:
  "bound_by i 1 f f1 \<Longrightarrow> bound_by (i + 1) n f1 f' \<Longrightarrow> bound_by i (Suc n) f f'"
  by (auto simp: bound_by_def split: if_splits)

lemma FormatParameters_bound_by:
  "FormatParameters P i fragments args = Inr fragments' \<Longrightarrow>
   list_all2 (bound_by i (length args)) fragments fragments'"
proof (induction args arbitrary: i fragments)
  case Nil
  then show ?case by (auto simp: bound_by_def list_all2_same)
next
  case (Cons a args)
  from Cons.prems obtain fragments1 where
    one: "FormatParameter P i fragments a = Inr fragments1"
    and more: "FormatParameters P (i + 1) fragments1 args = Inr fragments'"
    by (auto split: sum.splits)
  have step: "bound_by i (length (a # args)) f f'"
    if "bound_by i 1 f f1" and "bound_by (i + 1) (length args) f1 f'" for f f1 f'
    using that by (simp add: bound_by_step)
  from list_all2_trans [of "bound_by i 1" "bound_by (i + 1) (length args)"
      "bound_by i (length (a # args))", OF step FormatParameter_bound_by [OF one]
      Cons.IH [OF more]]
  show ?case .
qed

subsection \<open>Assembling\<close>

lemma OutputFragments_disabled:
  "OutputFragments True fragments ostr = Inr (ostr @ concat (map text' fragments))"
  by (induction fragments arbitrary: ostr) auto

lemma OutputFragments_throws:
  "\<exists>g \<in> set fragments. \<not> handled g \<Longrightarrow>
   \<exists>g \<in> set fragments. \<not> handled g \<and> OutputFragments False fragments ostr = Inl (out_of_range (index g))"
  by (induction fragments arbitrary: ostr) auto

lemma FormatParameter_other_index:
  "\<forall>f \<in> set fragments. index f \<noteq> i \<Longrightarrow> FormatParameter P i fragments a = Inr fragments"
  by (induction fragments) auto

lemma FormatParameters_other_indices:
  "\<forall>f \<in> set fragments. index f < i \<Longrightarrow> FormatParameters P i fragments args = Inr fragments"
proof (induction args arbitrary: i)
  case Nil
  then show ?case by simp
next
  case (Cons a args)
  from Cons.prems have "\<forall>f \<in> set fragments. index f \<noteq> i" by auto
  moreover from Cons.prems have "\<forall>f \<in> set fragments. index f < i + 1" by auto
  ultimately show ?case by (simp add: FormatParameter_other_index Cons.IH)
qed

subsection \<open>The fragments of a template\<close>

lemma ParseFormatStr_loop_fresh:
  "ParseFormatStr_loop P cs fragments pos n = Inr fragments' \<Longrightarrow>
   \<forall>f \<in> set fragments. fresh f \<Longrightarrow> \<forall>f \<in> set fragments'. fresh f"
proof (induction P cs fragments pos n rule: ParseFormatStr_loop.induct)
  case (1 P cs fragments pos n)
  show ?case
  proof (cases cs)
    case Nil
    with "1.prems" show ?thesis by (simp add: ParseFormatStr_loop.simps)
  next
    case (Cons c cs0)
    with "1.prems" obtain fragments1 rest pos1 n1 where
      one: "ParseFormatParameter P (c # cs0) fragments pos n = Inr (fragments1, rest, pos1, n1)"
      and more: "ParseFormatStr_loop P rest fragments1 pos1 n1 = Inr fragments'"
      by (auto simp: ParseFormatStr_loop.simps [of P "c # cs0"] split: sum.splits)
    obtain field p where "SkipWhitespace cs0 (pos + 1) = (field, p)"
      by (cases "SkipWhitespace cs0 (pos + 1)") auto
    from ParseFormatParameter_field [OF one this] obtain f tail where
      "fragments1 = fragments @ f # tail"
      "\<forall>g \<in> set tail. index g = FORMAT_TEXT_INDEX \<and> handled g"
      "handled f = (index f < 0)"
      "index f \<noteq> FORMAT_ENVIRONMENT_INDEX \<longrightarrow> text' f = []"
      by blast
    with "1.prems"(2) have "\<forall>f \<in> set fragments1. fresh f"
      by (auto simp: fresh_def)
    from "1.IH" [OF _ _ refl refl refl more this] Cons one show ?thesis by simp
  qed
qed

lemma ParseFormatStr_fresh:
  assumes "ParseFormatStr P t [] [] = Inr (ostr, fragments)"
  shows "\<forall>f \<in> set fragments. fresh f"
proof -
  from assms obtain rest pos where "ParseFormatStr_loop P rest [] pos 0 = Inr fragments"
    by (auto simp: ParseFormatStr_def split: sum.splits)
  from ParseFormatStr_loop_fresh [OF this] show ?thesis by simp
qed

subsection \<open>Identifiers\<close>

lemma ReadIdentifier_identifier:
  "list_all is_identifier_char k \<Longrightarrow>
   (case rest of [] \<Rightarrow> True | c # cs \<Rightarrow> \<not> is_identifier_char c) \<Longrightarrow>
   ReadIdentifier (k @ rest) ostr pos = (ostr @ k, rest, pos + length k)"
proof (induction k arbitrary: ostr pos)
  case Nil
  then show ?case by (cases rest) auto
next
  case (Cons a k)
  then show ?case by simp
qed

lemma closing_not_identifier:
  "\<not> is_identifier_char FORMAT_END" "\<not> is_identifier_char FORMAT_SELECTOR_ARRAY_END"
  "\<not> is_identifier_char FORMAT_SPECIFIER"
  by (simp_all add: is_identifier_char_def)

lemma ParseFormatStr_object_notation:
  assumes "list_all is_identifier_char k"
  shows "ParseFormatStr P (''{0.'' @ k @ ''}'') [] [] =
     Inr ([], [\<lparr>text' = [], formatSpecifier = [], selectors = [k], index = 0,
                explicitConversion = NUL, handled = False\<rparr>])"
  using assms
  by (simp add: format_defs scanner_defs ReadIdentifier_identifier closing_not_identifier)

lemma ParseFormatStr_array_notation:
  assumes "list_all is_identifier_char k"
  shows "ParseFormatStr P (''{0['' @ k @ '']}'') [] [] =
     Inr ([], [\<lparr>text' = [], formatSpecifier = [], selectors = [k], index = 0,
                explicitConversion = NUL, handled = False\<rparr>])"
  using assms
  by (simp add: format_defs scanner_defs ReadIdentifier_identifier closing_not_identifier)

subsection \<open>The digits of a value between 2.7175 and 2.7185\<close>

text \<open>
  \<open>round_half_even n d\<close> is \<open>a\<close> whenever \<open>n / d\<close> lies strictly between \<open>a - 1/2\<close> and
  \<open>a + 1/2\<close>. A value strictly between 2.7175 and 2.7185 has the decimal exponent 0 and
  rounds to 3, 2.7, 2.72 and 2.718 at one to four significant digits.
\<close>

lemma denominator_pos: "0 < denominator e"
  by (simp add: denominator_def)

lemma round_half_even_eq:
  assumes "0 < d" and "2 * a * d < 2 * n + d" and "2 * n < 2 * a * d + d"
  shows "round_half_even n d = a"
proof -
  define q where "q = n div d"
  define r where "r = n mod d"
  have n: "n = d * q + r" and r: "r < d" using assms(1) by (simp_all add: q_def r_def)
  have "2 * a * d < 2 * (d * q + r) + d" using assms(2) n by simp
  then have "(2 * a) * d < (2 * q + 3) * d" using r by (simp add: algebra_simps)
  then have lo: "2 * a < 2 * q + 3" using mult_less_cancel2 by blast
  have "2 * (d * q + r) < 2 * a * d + d" using assms(3) n by simp
  then have "(2 * q) * d < (2 * a + 1) * d" by (simp add: algebra_simps)
  then have hi: "2 * q < 2 * a + 1" using mult_less_cancel2 by blast
  from lo hi consider "q = a" | "q + 1 = a" by linarith
  then show ?thesis
  proof cases
    case 1
    with assms(3) n have "2 * r < d" by (simp add: algebra_simps)
    with 1 show ?thesis by (simp add: round_half_even_def Let_def q_def r_def)
  next
    case 2
    then have "a = q + 1" by simp
    with assms(2) n have "d < 2 * r" by (simp add: algebra_simps)
    with 2 show ?thesis by (simp add: round_half_even_def Let_def q_def r_def)
  qed
qed

lemma rounded_e:
  assumes d: "0 < d" and lo: "27175 * d < 10000 * n" and hi: "10000 * n < 27185 * d"
  shows "rounded n d 0 = 3" and "rounded n d 1 = 27" and "rounded n d 2 = 272"
    and "rounded n d 3 = 2718"
proof -
  show "rounded n d 0 = 3"
    using lo hi by (simp add: rounded_def round_half_even_eq [OF d, of 3])
  show "rounded n d 1 = 27"
    using lo hi by (simp add: rounded_def round_half_even_eq [OF d, of 27])
  show "rounded n d 2 = 272"
    using lo hi by (simp add: rounded_def round_half_even_eq [OF d, of 272])
  show "rounded n d 3 = 2718"
    using lo hi by (simp add: rounded_def round_half_even_eq [OF d, of 2718])
qed

lemma decimal_exponent_e:
  assumes d: "0 < d" and lo: "27175 * d < 10000 * n" and hi: "10000 * n < 27185 * d"
  shows "decimal_exponent n d 1 = 0" and "decimal_exponent n d 2 = 0"
    and "decimal_exponent n d 3 = 0" and "decimal_exponent n d 4 = 0"
proof -
  from d lo hi have n: "n \<noteq> 0" "d \<le> n" "\<not> 10 * d \<le> n" by auto
  then have X: "ilog10_ge n d = 0" by (simp add: ilog10_ge.simps [of n d])
  show "decimal_exponent n d 1 = 0"
    using n X rounded_e(1) [OF d lo hi] by (simp add: decimal_exponent_def)
  show "decimal_exponent n d 2 = 0"
    using n X rounded_e(2) [OF d lo hi] by (simp add: decimal_exponent_def)
  show "decimal_exponent n d 3 = 0"
    using n X rounded_e(3) [OF d lo hi] by (simp add: decimal_exponent_def)
  show "decimal_exponent n d 4 = 0"
    using n X rounded_e(4) [OF d lo hi] by (simp add: decimal_exponent_def)
qed

lemma floating_text_e:
  assumes d: "0 < d" and lo: "27175 * d < 10000 * n" and hi: "10000 * n < 27185 * d"
    and st: "os_floatfield st = float_unset" "os_locale st = classic_locale"
  shows "os_precision st = 0 \<Longrightarrow> floating_text P st n d = ''3''"
    and "os_precision st = 1 \<Longrightarrow> floating_text P st n d = ''3''"
    and "os_precision st = 2 \<Longrightarrow> floating_text P st n d = ''2.7''"
    and "os_precision st = 3 \<Longrightarrow> floating_text P st n d = ''2.72''"
    and "os_precision st = 4 \<Longrightarrow> floating_text P st n d = ''2.718''"
  using st rounded_e [OF d lo hi] decimal_exponent_e [OF d lo hi]
  by (simp_all add: floating_text_def fixed_notation_def zero_padded_def with_point_def
       strip_zeros_def decimal_point_def grouping_def digits_of.simps Let_def)

lemma FormatType_long_double_e:
  assumes v: "long_double_value P value = Finite False m e"
    and lo: "27175 * denominator e < 10000 * numerator m e"
    and hi: "10000 * numerator m e < 27185 * denominator e"
  shows "FormatType_long_double P value ''.0'' = Inr ''3''"
    and "FormatType_long_double P value ''.1'' = Inr ''3''"
    and "FormatType_long_double P value ''.2'' = Inr ''2.7''"
    and "FormatType_long_double P value ''.3'' = Inr ''2.72''"
    and "FormatType_long_double P value ''.4'' = Inr ''2.718''"
  using v
  by (simp_all add: FormatType_long_double_def PreprocessStreamForDecimal_def
       PostprocessStreamForDecimal_def insert_long_double_def text_defs scanner_defs
       floating_text_e [OF denominator_pos lo hi] Let_def)

text \<open>
  Under the empty specifier the value is written by \<^verbatim>\<open>FormatDynamicDecimal\<close>, with the
  minimum precision 1, the maximum precision 16 and no ceiling for the scientific
  notation.
\<close>

lemma FormatType_long_double_empty_specifier:
  "FormatType_long_double P value [] =
     Inr (insert_FormatDynamicDecimal P (stringstream_init\<lparr>os_adjust := adjust_right\<rparr>)
            (long_double_value P value) 1 DOUBLE_MAX_DEFAULT_PRECISION 0)"
  by (simp add: FormatType_long_double_def PreprocessStreamForDecimal_def
        PostprocessStreamForDecimal_def text_defs Let_def)

section \<open>Properties\<close>

subsection \<open>Interleaved indices\<close>

text \<open>
  Claim C1. On every platform and in both configurations of the macro, the template
  \<^verbatim>\<open>"{} {}, {0} {}, {0} {}"\<close> with the arguments \<^verbatim>\<open>"left"\<close> and \<^verbatim>\<open>"right"\<close> formats to
  \<^verbatim>\<open>"left right, left right, left right"\<close>. The fragments of the template carry the
  indices 0, 1, 0, 1, 0, 1 (with the text fragments, of index -1, between them): each
  field without an index takes the index after the one of the field before it.
\<close>

theorem Format_interleaved_indices:
  "Format P d ''{} {}, {0} {}, {0} {}'' [Textual ''left'', Textual ''right'']
     = Inr ''left right, left right, left right''
   \<and> (case ParseFormatStr P ''{} {}, {0} {}, {0} {}'' [] [] of
        Inl e \<Rightarrow> False
      | Inr (ostr, fragments) \<Rightarrow>
          map index fragments = [0, - 1, 1, - 1, 0, - 1, 1, - 1, 0, - 1, 1])"
  by (simp add: format_defs scanner_defs text_defs Let_def)

subsection \<open>The running index\<close>

text \<open>
  Claim C2, as stated: parsing a field with an explicitly written index leaves the
  running index unchanged. It does not: after \<^verbatim>\<open>{5}\<close>, parsed with the running index 0,
  the running index is 6.
\<close>

theorem ParseFormatParameter_explicit_index_counterexample:
  "ParseFormatParameter reference_platform ''{5}'' [] 0 0 =
     Inr ([\<lparr>text' = [], formatSpecifier = [], selectors = [], index = 5,
             explicitConversion = NUL, handled = False\<rparr>], [], 3, 6)"
  by (simp add: format_defs scanner_defs)

text \<open>
  Claim C2, amended. Let a field be parsed with the running index \<open>n\<close>, and let \<open>n'\<close> be the
  running index afterwards. An environment reference leaves it unchanged. For any other
  field \<open>n'\<close> is the index of the field plus one (in 32-bit arithmetic). A field without
  an explicitly written index has the index \<open>n\<close>; for a field with one, neither the
  field nor \<open>n'\<close> depends on \<open>n\<close>.
\<close>

theorem ParseFormatParameter_running_index:
  assumes parse: "ParseFormatParameter P (c # cs) fragments pos n = Inr (fragments', rest, pos', n')"
    and field: "SkipWhitespace cs (pos + 1) = (field, pos1)"
  shows "(environment_reference field \<longrightarrow> n' = n)
       \<and> (\<not> environment_reference field \<longrightarrow>
            n' = int32 (index (fragments' ! length fragments) + 1))
       \<and> (\<not> environment_reference field \<and> \<not> explicit_index field \<longrightarrow>
            index (fragments' ! length fragments) = n)
       \<and> (explicit_index field \<longrightarrow>
            (\<forall>m. ParseFormatParameter P (c # cs) fragments pos m
                   = Inr (fragments', rest, pos', n')))"
proof -
  from ParseFormatParameter_field [OF parse field] obtain f tail where
    frs: "fragments' = fragments @ f # tail"
    and running: "if environment_reference field then index f = FORMAT_ENVIRONMENT_INDEX \<and> n' = n
        else (\<exists>cs2 pos2. ParseIntegerNumber field pos1 False n = Inr (index f, cs2, pos2))
             \<and> n' = int32 (index f + 1)"
    by blast
  from frs have at: "fragments' ! length fragments = f" by simp
  have explicit: "ParseFormatParameter P (c # cs) fragments pos m
                   = Inr (fragments', rest, pos', n')" if e: "explicit_index field" for m
  proof -
    from e obtain d ds where fd: "field = d # ds" and d: "is_digit d"
      by (cases field) (auto simp: explicit_index_def)
    from d have "d \<noteq> FORMAT_ENVIRONMENT" by (auto simp: is_digit_def)
    with fd have "ParseFormatParameter P (c # cs) fragments pos m
        = ParseFormatParameter P (c # cs) fragments pos n"
      using field ParseIntegerNumber_explicit [OF d, of ds pos1 m n]
      by (simp add: ParseFormatParameter_def)
    with parse show ?thesis by simp
  qed
  from running at explicit show ?thesis
    by (auto dest: ParseIntegerNumber_implicit)
qed

theorem ParseFormatParameter_running_index_witness:
  "ParseFormatParameter reference_platform ''{5}'' [] 0 3 =
     Inr ([\<lparr>text' = [], formatSpecifier = [], selectors = [], index = 5,
             explicitConversion = NUL, handled = False\<rparr>], [], 3, 6)
   \<and> SkipWhitespace ''5}'' (0 + 1) = (''5}'', 1)
   \<and> explicit_index ''5}''
   \<and> (6 :: int) = int32 (5 + 1)
   \<and> ParseFormatParameter reference_platform ''{5}'' [] 0 7 =
     Inr ([\<lparr>text' = [], formatSpecifier = [], selectors = [], index = 5,
             explicitConversion = NUL, handled = False\<rparr>], [], 3, 6)"
proof -
  have parse: "ParseFormatParameter reference_platform (CHR ''{'' # ''5}'') [] 0 3 =
     Inr ([\<lparr>text' = [], formatSpecifier = [], selectors = [], index = 5,
             explicitConversion = NUL, handled = False\<rparr>], [], 3, 6)"
    by (simp add: format_defs scanner_defs)
  have field: "SkipWhitespace ''5}'' (0 + 1) = (''5}'', 1)" by simp
  have explicit: "explicit_index ''5}''" by (simp add: explicit_index_def is_digit_def)
  from ParseFormatParameter_running_index [OF parse field] explicit
  have "ParseFormatParameter reference_platform (CHR ''{'' # ''5}'') [] 0 7 =
     Inr ([\<lparr>text' = [], formatSpecifier = [], selectors = [], index = 5,
             explicitConversion = NUL, handled = False\<rparr>], [], 3, 6)"
    by blast
  with parse field explicit show ?thesis by (simp add: int32_def)
qed

subsection \<open>Escaped braces and the lone closing brace\<close>

text \<open>
  Claim C3. \<^verbatim>\<open>Format("{{")\<close> is \<^verbatim>\<open>"{"\<close> and \<^verbatim>\<open>Format("}}")\<close> is \<^verbatim>\<open>"}"\<close>, and a lone closing
  brace followed by another character raises \<^verbatim>\<open>IllegalFormatStringException\<close> at that
  character. A lone closing brace that ends the template, or the text after a field,
  raises nothing: \<^verbatim>\<open>GetPlainTextFragment\<close> leaves its loop at the terminator with
  \<^verbatim>\<open>expect\<close> still set, and the brace is dropped.
\<close>

theorem Format_lone_closing_brace_at_end:
  "Format P d ''{{'' [] = Inr ''{''
   \<and> Format P d ''}}'' [] = Inr ''}''
   \<and> Format P d ''a}b'' [] = Inl (IllegalFormatStringException 2)
   \<and> Format P d ''}'' [] = Inr []
   \<and> Format P d ''a}'' [] = Inr ''a''
   \<and> Format P d ''{}}'' [Textual ''x''] = Inr ''x''"
  by (simp add: format_defs scanner_defs text_defs Let_def)

subsection \<open>Templates without fields\<close>

text \<open>
  Claim C4, as stated: every template without an unescaped opening brace formats to its
  un-doubling. It does not: \<^verbatim>\<open>"a}b"\<close> has no opening brace at all, its un-doubling is
  itself, and \<open>Format\<close> raises \<^verbatim>\<open>IllegalFormatStringException\<close> at position 2.
\<close>

theorem Format_without_fields_counterexample:
  "no_unescaped_open ''a}b''
   \<and> undouble ''a}b'' = ''a}b''
   \<and> Format reference_platform False ''a}b'' [] = Inl (IllegalFormatStringException 2)"
  by (simp add: format_defs scanner_defs)

text \<open>
  Claim C4, amended. For every template in which every brace, opening or closing, is one
  of a doubled pair, \<open>Format\<close> returns the un-doubled template, whatever the arguments.
  Such a template has no unescaped opening brace.
\<close>

theorem Format_without_fields:
  assumes "every_brace_doubled t"
  shows "no_unescaped_open t \<and> Format P d t args = Inr (undouble t)"
proof
  from assms show "no_unescaped_open t"
    by (induction t rule: every_brace_doubled.induct)
       (auto split: if_splits simp: no_unescaped_open_Cons)
next
  from GetPlainTextFragment_loop_doubled [OF assms, of "[]" 0]
  show "Format P d t args = Inr (undouble t)"
    by (simp add: Format_def ParseFormatStr_def ParseFormatStr_loop.simps
                  GetPlainTextFragment_def)
qed

theorem Format_without_fields_witness:
  "every_brace_doubled ''a{{b}}c''
   \<and> no_unescaped_open ''a{{b}}c''
   \<and> Format reference_platform False ''a{{b}}c'' [Integral 1] = Inr ''a{b}c''"
  using Format_without_fields [of "''a{{b}}c''" reference_platform False "[Integral 1]"]
  by simp

subsection \<open>A floating-point value under a precision\<close>

text \<open>
  Claim C5. With a precision and no presentation type in the specifier,
  \<^verbatim>\<open>FormatType(long double, ...)\<close> does not write the value through
  \<^verbatim>\<open>FormatDynamicDecimal\<close>: it sets the precision on its buffer, leaves the notation of
  the buffer unset and inserts the value, so that the precision counts significant
  digits, a precision of zero counting as one. For every \<^verbatim>\<open>long double\<close> strictly between
  2.7175 and 2.7185, as the literal \<^verbatim>\<open>2.7182818284590452353603L\<close> is, the precisions 0 to
  4 write \<^verbatim>\<open>3\<close>, \<^verbatim>\<open>3\<close>, \<^verbatim>\<open>2.7\<close>, \<^verbatim>\<open>2.72\<close> and \<^verbatim>\<open>2.718\<close>, and not \<^verbatim>\<open>2\<close>, \<^verbatim>\<open>2.7\<close>, \<^verbatim>\<open>2.72\<close>,
  \<^verbatim>\<open>2.718\<close> and \<^verbatim>\<open>2.7183\<close>.
\<close>

theorem FormatType_long_double_precision:
  assumes v: "long_double_value P value = Finite False m e"
    and lo: "27175 * denominator e < 10000 * numerator m e"
    and hi: "10000 * numerator m e < 27185 * denominator e"
  shows "Format P d ''{0:.0}, {0:.1}, {0:.2}, {0:.3}, {0:.4}'' [Floating value]
           = Inr ''3, 3, 2.7, 2.72, 2.718''
       \<and> FormatType_long_double P value ''.0'' = Inr ''3''
       \<and> FormatType_long_double P value ''.1'' = Inr ''3''
       \<and> FormatType_long_double P value ''.2'' = Inr ''2.7''
       \<and> FormatType_long_double P value ''.3'' = Inr ''2.72''
       \<and> FormatType_long_double P value ''.4'' = Inr ''2.718''"
  by (simp add: format_defs scanner_defs text_defs ConvertAndFormatType_long_double_def Let_def
        FormatType_long_double_e [OF v lo hi])

theorem FormatType_long_double_precision_witness:
  "long_double_value
       (reference_platform\<lparr>long_double_value :=
          \<lambda>value. Finite False 12535862302449814171 (- 62)\<rparr>)
       (LD_literal ''2.7182818284590452353603'')
     = Finite False 12535862302449814171 (- 62)
   \<and> 27175 * denominator (- 62) < 10000 * numerator 12535862302449814171 (- 62)
   \<and> 10000 * numerator 12535862302449814171 (- 62) < 27185 * denominator (- 62)
   \<and> Format
       (reference_platform\<lparr>long_double_value :=
          \<lambda>value. Finite False 12535862302449814171 (- 62)\<rparr>)
       False ''{0:.0}, {0:.1}, {0:.2}, {0:.3}, {0:.4}''
       [Floating (LD_literal ''2.7182818284590452353603'')]
     = Inr ''3, 3, 2.7, 2.72, 2.718''"
proof -
  let ?P = "reference_platform\<lparr>long_double_value :=
              \<lambda>value. Finite False 12535862302449814171 (- 62)\<rparr>"
  have v: "long_double_value ?P (LD_literal ''2.7182818284590452353603'')
             = Finite False 12535862302449814171 (- 62)"
    by simp
  have lo: "27175 * denominator (- 62) < 10000 * numerator 12535862302449814171 (- 62)"
    by (simp add: numerator_def denominator_def)
  have hi: "10000 * numerator 12535862302449814171 (- 62) < 27185 * denominator (- 62)"
    by (simp add: numerator_def denominator_def)
  from FormatType_long_double_precision [OF v lo hi, of False]
  have "Format ?P False ''{0:.0}, {0:.1}, {0:.2}, {0:.3}, {0:.4}''
          [Floating (LD_literal ''2.7182818284590452353603'')]
        = Inr ''3, 3, 2.7, 2.72, 2.718''"
    by blast
  with v lo hi show ?thesis by blast
qed

subsection \<open>Selectors on an integer\<close>


subsection \<open>Conversions of a boolean\<close>

text \<open>
  Claim C7, as stated: a boolean is written as \<^verbatim>\<open>True\<close> or \<^verbatim>\<open>False\<close> only when it has neither
  a conversion nor a specifier. It is not: with the conversion \<^verbatim>\<open>s\<close> and the specifier
  \<^verbatim>\<open>6\<close> the value \<^verbatim>\<open>true\<close> is written as \<^verbatim>\<open>True\<close>, padded to six characters.
\<close>

theorem ConvertAndFormatType_bool_counterexample:
  "Format reference_platform False ''{0!s:6}'' [Boolean True] = Inr ''True  ''"
  by (simp add: format_defs scanner_defs text_defs ConvertAndFormatType_bool_def Let_def
                eval_nat_numeral)

text \<open>
  Claim C7, amended. A boolean with neither a conversion nor a specifier is written as
  the text \<^verbatim>\<open>True\<close> or \<^verbatim>\<open>False\<close>. A boolean with a specifier is written according to its
  conversion: as that text for \<^verbatim>\<open>s\<close> and \<^verbatim>\<open>r\<close>, as the decimal 1.0 or 0.0 for \<^verbatim>\<open>d\<close>, and as
  the integer 1 or 0 for \<^verbatim>\<open>i\<close> and without a conversion. (A boolean with a conversion and
  an empty specifier is left out of the statement.)
\<close>

theorem ConvertAndFormatType_bool_conversions:
  "(formatSpecifier fragment = [] \<and> explicitConversion fragment = NUL \<longrightarrow>
      ConvertAndFormatType_bool P b fragment output =
        (case FormatType_cstr (if b then ''True'' else ''False'') [] output of
           Inl e \<Rightarrow> Inl e | Inr output' \<Rightarrow> Inr (True, fragment, output')))
   \<and> (formatSpecifier fragment \<noteq> [] \<longrightarrow>
      ConvertAndFormatType_bool P b fragment output =
        (case (if explicitConversion fragment = CHR ''s'' \<or> explicitConversion fragment = CHR ''r''
               then FormatType_cstr (if b then ''True'' else ''False'')
                      (formatSpecifier fragment) output
               else if explicitConversion fragment = CHR ''d''
               then FormatType P (Floating (LD_of_int64 (if b then 1 else 0)))
                      (formatSpecifier fragment) output
               else FormatType_int64 P (if b then 1 else 0) (formatSpecifier fragment) output) of
           Inl e \<Rightarrow> Inl e | Inr output' \<Rightarrow> Inr (True, fragment, output')))
   \<and> Format P d ''{}, {}'' [Boolean True, Boolean False] = Inr ''True, False''
   \<and> Format P d ''{0:3}|{0!i:3}|{0!s:6}|{0!r:>6}|'' [Boolean True] = Inr ''  1|  1|True  |  True|''
   \<and> Format P d ''{0!d:3}'' [Boolean True] = FormatType_long_double P (LD_of_int64 1) ''3''"
proof (intro conjI impI)
  assume "formatSpecifier fragment = [] \<and> explicitConversion fragment = NUL"
  then show "ConvertAndFormatType_bool P b fragment output =
        (case FormatType_cstr (if b then ''True'' else ''False'') [] output of
           Inl e \<Rightarrow> Inl e | Inr output' \<Rightarrow> Inr (True, fragment, output'))"
    by (simp add: ConvertAndFormatType_bool_def)
next
  assume "formatSpecifier fragment \<noteq> []"
  then show "ConvertAndFormatType_bool P b fragment output =
        (case (if explicitConversion fragment = CHR ''s'' \<or> explicitConversion fragment = CHR ''r''
               then FormatType_cstr (if b then ''True'' else ''False'')
                      (formatSpecifier fragment) output
               else if explicitConversion fragment = CHR ''d''
               then FormatType P (Floating (LD_of_int64 (if b then 1 else 0)))
                      (formatSpecifier fragment) output
               else FormatType_int64 P (if b then 1 else 0) (formatSpecifier fragment) output) of
           Inl e \<Rightarrow> Inl e | Inr output' \<Rightarrow> Inr (True, fragment, output'))"
    by (auto simp: ConvertAndFormatType_bool_def Let_def)
next
  show "Format P d ''{}, {}'' [Boolean True, Boolean False] = Inr ''True, False''"
    by (simp add: format_defs scanner_defs text_defs ConvertAndFormatType_bool_def Let_def)
next
  show "Format P d ''{0:3}|{0!i:3}|{0!s:6}|{0!r:>6}|'' [Boolean True] = Inr ''  1|  1|True  |  True|''"
    by (simp add: format_defs scanner_defs text_defs integer_defs ConvertAndFormatType_bool_def
                  Let_def eval_nat_numeral)
next
  show "Format P d ''{0!d:3}'' [Boolean True] = FormatType_long_double P (LD_of_int64 1) ''3''"
    by (cases "FormatType_long_double P (LD_of_int64 1) ''3''")
       (simp_all add: format_defs scanner_defs text_defs ConvertAndFormatType_bool_def Let_def)
qed

theorem ConvertAndFormatType_bool_conversions_witness:
  "ConvertAndFormatType_bool reference_platform False
        (FormatFragment_default\<lparr>formatSpecifier := ''3''\<rparr>) [] =
       Inr (True, FormatFragment_default\<lparr>formatSpecifier := ''3''\<rparr>, ''  0'')
   \<and> ConvertAndFormatType_bool reference_platform True FormatFragment_default [] =
       Inr (True, FormatFragment_default, ''True'')"
  using ConvertAndFormatType_bool_conversions
    [of "FormatFragment_default\<lparr>formatSpecifier := ''3''\<rparr>" reference_platform False "[]" False]
    ConvertAndFormatType_bool_conversions
    [of FormatFragment_default reference_platform True "[]" False]
  by (simp add: format_defs scanner_defs text_defs integer_defs ConvertAndFormatType_bool_def
                Let_def eval_nat_numeral)

subsection \<open>Unbound fields\<close>

text \<open>
  Claim C8, as stated: whenever a field of the template has an index that matches no
  argument, \<open>Format\<close> raises \<^verbatim>\<open>std::out_of_range\<close> while the macro is not defined and
  succeeds when it is. It does not: in \<^verbatim>\<open>"{0:1-}{1}"\<close> with one argument the field
  \<^verbatim>\<open>{1}\<close> matches no argument, but rendering the argument for \<^verbatim>\<open>{0:1-}\<close> raises
  \<^verbatim>\<open>IllegalFormatStringException\<close> for its specifier first, in both configurations.
\<close>

theorem Format_unbound_field_counterexample:
  "(case ParseFormatStr reference_platform ''{0:1-}{1}'' [] [] of
      Inl e \<Rightarrow> False
    | Inr (ostr, fragments) \<Rightarrow> map index fragments = [0, 1])
   \<and> Format reference_platform False ''{0:1-}{1}'' [Integral 5]
       = Inl (IllegalFormatStringException 1)
   \<and> Format reference_platform True ''{0:1-}{1}'' [Integral 5]
       = Inl (IllegalFormatStringException 1)"
  by (simp add: format_defs scanner_defs text_defs integer_defs Let_def)

text \<open>
  Claim C8, amended. Let the template parse, and let the supplied arguments render
  without error into the fragments they match. If some fragment has an index that
  matches no argument, then with the macro not defined \<open>Format\<close> raises
  \<^verbatim>\<open>std::out_of_range\<close>, naming an index that matches no argument; with the macro defined,
  \<open>Format\<close> returns the leading text followed by the texts of the fragments, and the
  text of the unmatched fragment is empty.
\<close>

theorem Format_unbound_field:
  assumes parse: "ParseFormatStr P t [] [] = Inr (ostr, fragments)"
    and bind: "FormatParameters P 0 fragments args = Inr fragments'"
    and k: "k < length fragments"
    and unbound: "int (length args) \<le> index (fragments ! k)"
  shows "(\<exists>i. int (length args) \<le> i \<and> Format P False t args = Inl (out_of_range i))
       \<and> Format P True t args = Inr (ostr @ concat (map text' fragments'))
       \<and> text' (fragments' ! k) = []"
proof -
  from k have ne: "fragments \<noteq> []" by auto
  from FormatParameters_bound_by [OF bind]
  have rel: "list_all2 (bound_by 0 (length args)) fragments fragments'" .
  then have len: "length fragments' = length fragments" by (simp add: list_all2_lengthD)
  from ParseFormatStr_fresh [OF parse] have fr: "\<forall>f \<in> set fragments. fresh f" .
  from rel k have bk: "bound_by 0 (length args) (fragments ! k) (fragments' ! k)"
    by (simp add: list_all2_conv_all_nth)
  with unbound have same: "fragments' ! k = fragments ! k" by (simp add: bound_by_def)
  from fr k have frk: "fresh (fragments ! k)" by simp
  with unbound same have "\<not> handled (fragments' ! k)" and empty: "text' (fragments' ! k) = []"
    by (auto simp: fresh_def)
  with k len have "\<exists>g \<in> set fragments'. \<not> handled g" by (metis nth_mem)
  from OutputFragments_throws [OF this, of ostr] obtain g where
    g: "g \<in> set fragments'" "\<not> handled g"
    and out: "OutputFragments False fragments' ostr = Inl (out_of_range (index g))"
    by blast
  from g(1) obtain j where j: "j < length fragments'" "fragments' ! j = g"
    by (auto simp: in_set_conv_nth)
  with rel have bj: "bound_by 0 (length args) (fragments ! j) g"
    by (auto simp: list_all2_conv_all_nth)
  from j len fr have "fresh (fragments ! j)" by simp
  with bj g(2) have "int (length args) \<le> index g"
    by (auto simp: bound_by_def fresh_def split: if_splits)
  with out parse bind ne
  have "\<exists>i. int (length args) \<le> i \<and> Format P False t args = Inl (out_of_range i)"
    by (auto simp: Format_def)
  moreover from parse bind ne
  have "Format P True t args = Inr (ostr @ concat (map text' fragments'))"
    by (simp add: Format_def OutputFragments_disabled)
  ultimately show ?thesis using empty by blast
qed

theorem Format_unbound_field_witness:
  "ParseFormatStr reference_platform ''{}{1}'' [] [] =
     Inr ([], [\<lparr>text' = [], formatSpecifier = [], selectors = [], index = 0,
                explicitConversion = NUL, handled = False\<rparr>,
               \<lparr>text' = [], formatSpecifier = [], selectors = [], index = 1,
                explicitConversion = NUL, handled = False\<rparr>])
   \<and> FormatParameters reference_platform 0
       [\<lparr>text' = [], formatSpecifier = [], selectors = [], index = 0,
          explicitConversion = NUL, handled = False\<rparr>,
        \<lparr>text' = [], formatSpecifier = [], selectors = [], index = 1,
          explicitConversion = NUL, handled = False\<rparr>] [Textual ''a''] =
     Inr [\<lparr>text' = ''a'', formatSpecifier = [], selectors = [], index = 0,
            explicitConversion = NUL, handled = True\<rparr>,
          \<lparr>text' = [], formatSpecifier = [], selectors = [], index = 1,
            explicitConversion = NUL, handled = False\<rparr>]
   \<and> Format reference_platform False ''{}{1}'' [Textual ''a''] = Inl (out_of_range 1)
   \<and> Format reference_platform True ''{}{1}'' [Textual ''a''] = Inr ''a''"
proof -
  let ?f0 = "\<lparr>text' = [], formatSpecifier = [], selectors = [], index = 0,
               explicitConversion = NUL, handled = False\<rparr>"
  let ?f1 = "\<lparr>text' = [], formatSpecifier = [], selectors = [], index = 1,
               explicitConversion = NUL, handled = False\<rparr>"
  let ?g0 = "\<lparr>text' = ''a'', formatSpecifier = [], selectors = [], index = 0,
               explicitConversion = NUL, handled = True\<rparr>"
  have parse: "ParseFormatStr reference_platform ''{}{1}'' [] [] = Inr ([], [?f0, ?f1])"
    by (simp add: format_defs scanner_defs)
  have bind: "FormatParameters reference_platform 0 [?f0, ?f1] [Textual ''a''] = Inr [?g0, ?f1]"
    by (simp add: text_defs Let_def)
  have k: "1 < length [?f0, ?f1]" by simp
  have unbound: "int (length [Textual ''a'']) \<le> index ([?f0, ?f1] ! 1)" by simp
  from Format_unbound_field [OF parse bind k unbound]
  have "Format reference_platform True ''{}{1}'' [Textual ''a''] = Inr ''a''"
    by simp
  moreover have "Format reference_platform False ''{}{1}'' [Textual ''a''] = Inl (out_of_range 1)"
    by (simp add: format_defs scanner_defs text_defs Let_def)
  ultimately show ?thesis using parse bind by simp
qed

subsection \<open>Object notation and array notation\<close>

text \<open>
  Claim C9. Let \<open>k\<close> be an identifier. The selector \<^verbatim>\<open>.k\<close> and the selector \<^verbatim>\<open>[k]\<close> put the
  same entry \<open>k\<close> into the queue of selectors of a fragment and leave the same text
  unread, wherever in a template they stand (the text that follows must not continue
  the identifier nor start with a closing bracket). Hence the field \<^verbatim>\<open>{0.k}\<close> and the
  field \<^verbatim>\<open>{0[k]}\<close> format alike, for every list of arguments; for a map whose key \<open>k\<close>
  holds a text, both format to that text. The two templates of the example format
  alike for the map of the example.
\<close>

theorem Format_selector_notations:
  assumes "list_all is_identifier_char k"
  shows "(\<forall>rest fragment pos. ends_identifier rest \<longrightarrow>
            ReadSelector (''.'' @ k @ rest) fragment pos
              = Inr (fragment\<lparr>selectors := selectors fragment @ [k]\<rparr>, rest, pos + 1 + length k)
          \<and> ReadSelector (''['' @ k @ '']'' @ rest) fragment pos
              = Inr (fragment\<lparr>selectors := selectors fragment @ [k]\<rparr>, rest, pos + 2 + length k))
       \<and> Format P d (''{0.'' @ k @ ''}'') args = Format P d (''{0['' @ k @ '']}'') args
       \<and> (map_of m k = Some (Textual v) \<longrightarrow>
            Format P d (''{0.'' @ k @ ''}'') [TextMap m] = Inr v
          \<and> Format P d (''{0['' @ k @ '']}'') [TextMap m] = Inr v)
       \<and> Format P d ''{0.key1}, {0[key3]}''
            [TextMap [(''key1'', Textual ''value1''), (''key2'', Textual ''value2''),
                      (''key3'', Textual ''value3'')]] = Inr ''value1, value3''
       \<and> Format P d ''{0[key1]}, {0.key3}''
            [TextMap [(''key1'', Textual ''value1''), (''key2'', Textual ''value2''),
                      (''key3'', Textual ''value3'')]] = Inr ''value1, value3''"
proof (intro conjI impI allI)
  fix rest :: string and fragment :: FormatFragment and pos :: nat
  assume rest: "ends_identifier rest"
  then have stop: "case rest of [] \<Rightarrow> True | c # cs \<Rightarrow> \<not> is_identifier_char c"
    by (auto simp: ends_identifier_def split: list.splits)
  from rest ReadIdentifier_identifier [OF assms stop, of "[]" "Suc pos"]
  show "ReadSelector (''.'' @ k @ rest) fragment pos
      = Inr (fragment\<lparr>selectors := selectors fragment @ [k]\<rparr>, rest, pos + 1 + length k)"
    by (cases rest) (simp_all add: ends_identifier_def)
  have "case FORMAT_SELECTOR_ARRAY_END # rest of [] \<Rightarrow> True | c # cs \<Rightarrow> \<not> is_identifier_char c"
    by (simp add: closing_not_identifier)
  from ReadIdentifier_identifier [OF assms this]
  show "ReadSelector (''['' @ k @ '']'' @ rest) fragment pos
      = Inr (fragment\<lparr>selectors := selectors fragment @ [k]\<rparr>, rest, pos + 2 + length k)"
    by simp
next
  show "Format P d (''{0.'' @ k @ ''}'') args = Format P d (''{0['' @ k @ '']}'') args"
    unfolding Format_def
    by (simp only: ParseFormatStr_object_notation [OF assms]
                   ParseFormatStr_array_notation [OF assms])
next
  assume "map_of m k = Some (Textual v)"
  then show "Format P d (''{0.'' @ k @ ''}'') [TextMap m] = Inr v"
    by (simp only: Format_def ParseFormatStr_object_notation [OF assms])
       (simp add: Let_def text_defs)
next
  assume "map_of m k = Some (Textual v)"
  then show "Format P d (''{0['' @ k @ '']}'') [TextMap m] = Inr v"
    by (simp only: Format_def ParseFormatStr_array_notation [OF assms])
       (simp add: Let_def text_defs)
next
  show "Format P d ''{0.key1}, {0[key3]}''
            [TextMap [(''key1'', Textual ''value1''), (''key2'', Textual ''value2''),
                      (''key3'', Textual ''value3'')]] = Inr ''value1, value3''"
    by (simp add: format_defs scanner_defs text_defs Let_def)
next
  show "Format P d ''{0[key1]}, {0.key3}''
            [TextMap [(''key1'', Textual ''value1''), (''key2'', Textual ''value2''),
                      (''key3'', Textual ''value3'')]] = Inr ''value1, value3''"
    by (simp add: format_defs scanner_defs text_defs Let_def)
qed

theorem Format_selector_notations_witness:
  "list_all is_identifier_char ''key_2''
   \<and> Format reference_platform False ''{0.key_2}'' [TextMap [(''key_2'', Textual ''v'')]] = Inr ''v''
   \<and> Format reference_platform False ''{0[key_2]}'' [TextMap [(''key_2'', Textual ''v'')]] = Inr ''v''"
proof -
  have ident: "list_all is_identifier_char ''key_2''"
    by (simp add: is_identifier_char_def)
  have key: "map_of [(''key_2'', Textual ''v'')] ''key_2'' = Some (Textual ''v'')" by simp
  from Format_selector_notations [OF ident, of reference_platform False
      "[TextMap [(''key_2'', Textual ''v'')]]" "[(''key_2'', Textual ''v'')]" "''v''"] key
  have "Format reference_platform False (''{0.'' @ ''key_2'' @ ''}'')
          [TextMap [(''key_2'', Textual ''v'')]] = Inr ''v''"
    and "Format reference_platform False (''{0['' @ ''key_2'' @ '']}'')
          [TextMap [(''key_2'', Textual ''v'')]] = Inr ''v''"
    by blast+
  with ident show ?thesis by simp
qed

subsection \<open>A missing environment variable\<close>

text \<open>
  Claim C10. Let the environment hold no variable of the name \<open>name\<close>, an identifier. A
  fragment that refers to it is translated exactly as the empty text is converted and
  formatted under the fragment's conversion and specifier: the field \<^verbatim>\<open>{$name}\<close> formats to
  the empty string (and \<^verbatim>\<open>{$name:3}\<close>, as any empty text of width 3, to three spaces), in
  both configurations of the macro and whatever the arguments. The fragment of an
  environment reference is handled from its initialisation on, so that the assembler
  never raises for it.
\<close>

theorem TranslateEnvironmentFragment_missing_variable:
  assumes missing: "getenv P name = None"
    and ident: "list_all is_identifier_char name"
  shows "Format P d (''{$'' @ name @ ''}'') args = Inr []
       \<and> Format P d (''{$'' @ name @ '':3}'') args = Inr ''   ''
       \<and> (\<forall>fragment. text' fragment = name \<and> index fragment = FORMAT_ENVIRONMENT_INDEX \<longrightarrow>
            TranslateEnvironmentFragment P fragment =
              (case ConvertAndFormatType P (Textual []) fragment [] of
                 Inl e \<Rightarrow> Inl e
               | Inr (isHandled, fragment', buffer) \<Rightarrow> Inr (fragment'\<lparr>text' := buffer\<rparr>)))
       \<and> (\<forall>fragment. handled (InitializeFormatFragment fragment FORMAT_ENVIRONMENT_INDEX))"
proof (intro conjI allI impI)
  show "Format P d (''{$'' @ name @ ''}'') args = Inr []"
    using assms
    by (simp add: format_defs scanner_defs text_defs ReadIdentifier_identifier
                  closing_not_identifier Let_def FormatParameters_other_indices)
next
  show "Format P d (''{$'' @ name @ '':3}'') args = Inr ''   ''"
    using assms
    by (simp add: format_defs scanner_defs text_defs ReadIdentifier_identifier
                  closing_not_identifier Let_def eval_nat_numeral
                  FormatParameters_other_indices)
next
  fix fragment :: FormatFragment
  assume "text' fragment = name \<and> index fragment = FORMAT_ENVIRONMENT_INDEX"
  with missing show "TranslateEnvironmentFragment P fragment =
              (case ConvertAndFormatType P (Textual []) fragment [] of
                 Inl e \<Rightarrow> Inl e
               | Inr (isHandled, fragment', buffer) \<Rightarrow> Inr (fragment'\<lparr>text' := buffer\<rparr>))"
    by (auto simp: TranslateEnvironmentFragment_def ConvertAndFormatType_cstr_def
             split: sum.splits)
next
  fix fragment :: FormatFragment
  show "handled (InitializeFormatFragment fragment FORMAT_ENVIRONMENT_INDEX)"
    by (simp add: InitializeFormatFragment_def)
qed

theorem TranslateEnvironmentFragment_missing_variable_witness:
  "getenv reference_platform ''HOME'' = None
   \<and> list_all is_identifier_char ''HOME''
   \<and> Format reference_platform False ''{$HOME}'' [] = Inr []
   \<and> Format reference_platform False ''{$HOME:3}'' [] = Inr ''   ''"
proof -
  have missing: "getenv reference_platform ''HOME'' = None"
    by (simp add: reference_platform_def)
  have ident: "list_all is_identifier_char ''HOME''"
    by (simp add: is_identifier_char_def)
  from TranslateEnvironmentFragment_missing_variable [OF missing ident, of False "[]"]
  have "Format reference_platform False (''{$'' @ ''HOME'' @ ''}'') [] = Inr []"
    and "Format reference_platform False (''{$'' @ ''HOME'' @ '':3}'') [] = Inr ''   ''"
    by blast+
  with missing ident show ?thesis by simp
qed

end
